theory Spec2Isabelle
  imports Main "HOL-Library.Word"
begin

section \<open>Strings and numbers of the host language\<close>

text \<open>
  A JavaScript string is a sequence of 16-bit code units; \<open>charCodeAt\<close> reads one of
  them as a number between 0 and 65535. Literals of the source are ASCII and are written
  through \<open>utf16\<close>.
\<close>

type_synonym code_unit = "16 word"
type_synonym jsstring = "code_unit list"

definition utf16 :: "string \<Rightarrow> jsstring" where
  "utf16 s = map (\<lambda>c. of_nat (of_char c)) s"

text \<open>\<open>charCodeAt\<close> of one code unit, as a number.\<close>

definition charCode :: "code_unit \<Rightarrow> int" where
  "charCode c = uint c"

text \<open>
  \<open>ToInt32\<close>: the conversion every bitwise operator applies to its operands and its
  result (reduction modulo \<open>2 ^ 32\<close>, read as two's complement).
\<close>

definition ToInt32 :: "int \<Rightarrow> int" where
  "ToInt32 x = sint (word_of_int x :: 32 word)"

text \<open>\<open>x << n\<close> for a shift count \<open>n < 32\<close>.\<close>

definition shl :: "int \<Rightarrow> nat \<Rightarrow> int" where
  "shl x n = ToInt32 (ToInt32 x * 2 ^ n)"

text \<open>\<open>String(n)\<close> for an integral number: decimal digits, most significant first.\<close>

definition digit :: "nat \<Rightarrow> code_unit" where
  "digit d = of_nat (48 + d)"

fun dec_digits :: "nat \<Rightarrow> jsstring" where
  "dec_digits n = (if n < 10 then [digit n] else dec_digits (n div 10) @ [digit (n mod 10)])"

declare dec_digits.simps [simp del]

definition NumberToString :: "int \<Rightarrow> jsstring" where
  "NumberToString i =
     (if i < 0 then utf16 ''-'' @ dec_digits (nat (- i)) else dec_digits (nat i))"

definition is_digit :: "code_unit \<Rightarrow> bool" where
  "is_digit c = (48 \<le> c \<and> c \<le> 57)"

text \<open>The number a string of decimal digits denotes.\<close>

definition digits_value :: "jsstring \<Rightarrow> nat" where
  "digits_value s = foldl (\<lambda>a c. 10 * a + (unat c - 48)) 0 s"

section \<open>Identity function\<close>

text \<open>
  \<^verbatim>\<open>
  function hash(str: string): string {
    let hash = 0;
    let i = 0;
    while (i < str.length) {
      hash = ((hash << 5) - hash + str.charCodeAt(i++)) << 0;
    }
    return String(hash + 2147483647 + 1);
  }
  \<close>
  The loop runs over the code units that remain from index \<open>i\<close> on.
\<close>

fun hash_while :: "int \<Rightarrow> jsstring \<Rightarrow> int" where
  "hash_while h [] = h"
| "hash_while h (c # cs) = hash_while (shl (shl h 5 - h + charCode c) 0) cs"

definition hash :: "jsstring \<Rightarrow> jsstring" where
  "hash str = NumberToString (hash_while 0 str + 2147483647 + 1)"

section \<open>Data model\<close>

text \<open>
  A component reference is a tag name or a component type (a function or class). A
  component type has a reference, by which a \<open>Map\<close> compares its keys, and a source
  text, which is what \<open>String\<close> returns for it.
\<close>

datatype component_ref = ComponentName jsstring | ComponentType nat jsstring

text \<open>
  Values of the host language, as far as the editor handles them: primitives, dense
  arrays and plain objects, the latter as their own enumerable properties in enumeration
  order. A function is its reference together with its source text, which is what
  \<open>String\<close> returns for it.
\<close>

datatype jsval =
    JUndefined
  | JNull
  | JBool bool
  | JNum int
  | JStr jsstring
  | JFun nat jsstring
  | JArr "jsval list"
  | JObj "(jsstring \<times> jsval) list"

datatype attribute_kind = Static | Dynamic

text \<open>
  Modelled from the spec: the declaration of \<open>NodeInfo\<close> is imported from
  \<open>./internal\<close>, which is not among the source files. The spec gives it as
  \<open>{ jsxTagName: string, component: ComponentRef | null, attributes: ordered sequence of
  { name, kind: "static"|"dynamic", value } }\<close>; the source reads exactly these fields.
\<close>

record attribute_info =
  name :: jsstring
  kind :: attribute_kind
  attr_value :: jsval

record node_info =
  jsxTagName :: jsstring
  component :: "component_ref option"
  attributes :: "attribute_info list"

text \<open>
  \<^verbatim>\<open>
  interface HierarchyItem {
    nodeInfo: NodeInfo;
    moduleId: string;
    nodeId: string;
    children: HierarchyItem[];
  }
  \<close>
\<close>

datatype hierarchy_item =
  HierarchyItem (nodeInfo: node_info) (moduleId: jsstring) (nodeId: jsstring)
    (children: "hierarchy_item list")

text \<open>
  \<^verbatim>\<open>
  const getItemId = (item: HierarchyItem) =>
    hash(`${item.moduleId}:${item.nodeId}`);
  \<close>
\<close>

definition getItemId :: "hierarchy_item \<Rightarrow> jsstring" where
  "getItemId item = hash (moduleId item @ utf16 '':'' @ nodeId item)"

section \<open>Node registry and rendered output\<close>

text \<open>
  Modelled from the spec: \<open>modules\<close> is imported from \<open>./internal\<close>, which is not
  among the source files. The spec gives the registry as
  \<open>get(moduleId) -> { nodes: mapping nodeId -> NodeInfo } | undefined\<close>.
\<close>

record module_info =
  nodes :: "jsstring \<rightharpoonup> node_info"

type_synonym modules = "jsstring \<rightharpoonup> module_info"

text \<open>\<^verbatim>\<open>modules.get(moduleId)?.nodes.get(nodeId)\<close>\<close>

definition getNodeInfo :: "modules \<Rightarrow> jsstring \<Rightarrow> jsstring \<Rightarrow> node_info option" where
  "getNodeInfo ms mid nid = (case ms mid of None \<Rightarrow> None | Some mi \<Rightarrow> nodes mi nid)"

text \<open>
  A child node of the canvas is an element, with its attributes and its child nodes, or
  a node that is not an element (a text node, a comment). An element is an instance of
  \<open>HTMLElement\<close> or it is not (an element of another namespace, such as SVG or
  MathML). The walk tests \<open>elm instanceof HTMLElement\<close>.
\<close>

datatype dom_node =
    HTMLElement "(jsstring \<times> jsstring) list" "dom_node list"
  | OtherElement "(jsstring \<times> jsstring) list" "dom_node list"
  | OtherNode

text \<open>\<open>elm.getAttribute(name)\<close>: the value of the attribute, or \<open>null\<close>.\<close>

definition getAttribute :: "(jsstring \<times> jsstring) list \<Rightarrow> jsstring \<Rightarrow> jsstring option" where
  "getAttribute attrs a = map_of attrs a"

text \<open>A string or \<open>null\<close> used as a condition: \<open>null\<close> and the empty string are falsy.\<close>

definition truthy :: "jsstring option \<Rightarrow> bool" where
  "truthy x = (case x of None \<Rightarrow> False | Some s \<Rightarrow> s \<noteq> [])"

text \<open>
  The test \<open>moduleId && nodeId\<close> of \<open>findNodes\<close> on the two marker attributes of an
  element.
\<close>

definition identified :: "(jsstring \<times> jsstring) list \<Rightarrow> bool" where
  "identified attrs =
     (truthy (getAttribute attrs (utf16 ''data-mui-live-module-id''))
      \<and> truthy (getAttribute attrs (utf16 ''data-mui-live-node-id'')))"

text \<open>
  The errors the editor throws, one for each \<open>invariant\<close> call of \<open>Editor\<close>:
  "canvasRef should be assigned to a div element" and
  "nodeInfo is not defined for %s in %s" with the \<open>nodeId\<close> and the \<open>moduleId\<close>.
\<close>

datatype error =
    CanvasRefNotAssigned
  | NodeInfoNotDefined jsstring jsstring

section \<open>Tree synchronizer\<close>

text \<open>
  \<^verbatim>\<open>
  const findNodes = (elms: NodeListOf<ChildNode>): HierarchyItem[] => {
    const nodes: HierarchyItem[] = [];
    for (const elm of elms) {
      if (elm instanceof HTMLElement) {
        const moduleId = elm.getAttribute("data-mui-live-module-id");
        const nodeId = elm.getAttribute("data-mui-live-node-id");
        if (moduleId && nodeId) {
          const nodeInfo = modules.get(moduleId)?.nodes.get(nodeId);
          invariant(nodeInfo, "nodeInfo is not defined for %s in %s", nodeId, moduleId);
          nodes.push({ nodeInfo, moduleId, nodeId, children: findNodes(elm.childNodes) });
        } else {
          nodes.push(...findNodes(elm.childNodes));
        }
      }
    }
    return nodes;
  };
  \<close>
  The loop is a recursion over the nodes that remain; what an iteration pushes stands in
  front of what the later iterations push. A failed \<open>invariant\<close> ends the walk with its
  error. The test \<open>elm instanceof HTMLElement\<close> has no other branch: for a node that
  fails it the iteration does nothing.
\<close>

fun findNodes :: "modules \<Rightarrow> dom_node list \<Rightarrow> error + hierarchy_item list" where
  "findNodes ms [] = Inr []"
| "findNodes ms (OtherNode # elms) = findNodes ms elms"
| "findNodes ms (HTMLElement attrs childNodes # elms) =
     (let mid = getAttribute attrs (utf16 ''data-mui-live-module-id'');
          nid = getAttribute attrs (utf16 ''data-mui-live-node-id'')
      in if truthy mid \<and> truthy nid then
           (case getNodeInfo ms (the mid) (the nid) of
              None \<Rightarrow> Inl (NodeInfoNotDefined (the nid) (the mid))
            | Some ni \<Rightarrow>
                (case findNodes ms childNodes of
                   Inl e \<Rightarrow> Inl e
                 | Inr cs \<Rightarrow>
                     (case findNodes ms elms of
                        Inl e \<Rightarrow> Inl e
                      | Inr rest \<Rightarrow> Inr (HierarchyItem ni (the mid) (the nid) cs # rest))))
         else
           (case findNodes ms childNodes of
              Inl e \<Rightarrow> Inl e
            | Inr cs \<Rightarrow>
                (case findNodes ms elms of
                   Inl e \<Rightarrow> Inl e
                 | Inr rest \<Rightarrow> Inr (cs @ rest))))"
| "findNodes ms (OtherElement attrs childNodes # elms) = findNodes ms elms"

text \<open>
  The state of \<open>Editor\<close>: \<open>nodeTree\<close> and \<open>selectedItemId\<close>. The callback of the
  \<open>MutationObserver\<close> replaces \<open>nodeTree\<close> by the result of a walk over the child
  nodes of the canvas; \<open>canvasRef.current\<close> is the canvas or \<open>null\<close>.
  \<^verbatim>\<open>
  const observer = new MutationObserver(() => {
    invariant(canvasRef.current, "canvasRef should be assigned to a div element");
    setNodeTree(findNodes(canvasRef.current.childNodes));
  });
  \<close>
\<close>

record editor_state =
  nodeTree :: "hierarchy_item list"
  selectedItemId :: "jsstring option"

definition observer_callback ::
    "modules \<Rightarrow> dom_node list option \<Rightarrow> editor_state \<Rightarrow> error + editor_state" where
  "observer_callback ms canvas st =
     (case canvas of
        None \<Rightarrow> Inl CanvasRefNotAssigned
      | Some childNodes \<Rightarrow>
          (case findNodes ms childNodes of
             Inl e \<Rightarrow> Inl e
           | Inr tree \<Rightarrow> Inr (st\<lparr>nodeTree := tree\<rparr>)))"

text \<open>
  The elements of a forest of nodes that carry both identity markers, in document order,
  each as the pair of its marker values. An element carries a marker when the attribute
  is present with a non-empty value. This is the vocabulary of the specification, not a
  function of the source: it ranges over every element, whatever its kind and wherever it
  stands below the canvas.
\<close>

fun marked_elements :: "dom_node list \<Rightarrow> (jsstring \<times> jsstring) list" where
  "marked_elements [] = []"
| "marked_elements (OtherNode # elms) = marked_elements elms"
| "marked_elements (HTMLElement attrs childNodes # elms) =
     (if identified attrs
      then [(the (getAttribute attrs (utf16 ''data-mui-live-module-id'')),
             the (getAttribute attrs (utf16 ''data-mui-live-node-id'')))]
      else [])
     @ marked_elements childNodes @ marked_elements elms"
| "marked_elements (OtherElement attrs childNodes # elms) =
     (if identified attrs
      then [(the (getAttribute attrs (utf16 ''data-mui-live-module-id'')),
             the (getAttribute attrs (utf16 ''data-mui-live-node-id'')))]
      else [])
     @ marked_elements childNodes @ marked_elements elms"

text \<open>
  The marked elements among the \<open>HTMLElement\<close> instances that stand below the canvas
  with nothing but \<open>HTMLElement\<close> instances in between.
\<close>

fun reached_marked :: "dom_node list \<Rightarrow> (jsstring \<times> jsstring) list" where
  "reached_marked [] = []"
| "reached_marked (OtherNode # elms) = reached_marked elms"
| "reached_marked (HTMLElement attrs childNodes # elms) =
     (if identified attrs
      then [(the (getAttribute attrs (utf16 ''data-mui-live-module-id'')),
             the (getAttribute attrs (utf16 ''data-mui-live-node-id'')))]
      else [])
     @ reached_marked childNodes @ reached_marked elms"
| "reached_marked (OtherElement attrs childNodes # elms) = reached_marked elms"

text \<open>
  The forest the specification describes for a forest of nodes, read for \<open>HTMLElement\<close>
  instances: a marked element becomes an item with the registry's \<open>NodeInfo\<close> whose
  children are the forest of its child nodes; an element that is not marked becomes no
  item, and the forest of its child nodes stands in its place; any other node contributes
  nothing. Vocabulary of the specification as well, to compare the walk with.
\<close>

fun expected_forest :: "modules \<Rightarrow> dom_node list \<Rightarrow> hierarchy_item list" where
  "expected_forest ms [] = []"
| "expected_forest ms (OtherNode # elms) = expected_forest ms elms"
| "expected_forest ms (HTMLElement attrs childNodes # elms) =
     (if identified attrs
      then HierarchyItem
             (the (getNodeInfo ms (the (getAttribute attrs (utf16 ''data-mui-live-module-id'')))
                     (the (getAttribute attrs (utf16 ''data-mui-live-node-id'')))))
             (the (getAttribute attrs (utf16 ''data-mui-live-module-id'')))
             (the (getAttribute attrs (utf16 ''data-mui-live-node-id'')))
             (expected_forest ms childNodes)
           # expected_forest ms elms
      else expected_forest ms childNodes @ expected_forest ms elms)"
| "expected_forest ms (OtherElement attrs childNodes # elms) = expected_forest ms elms"

section \<open>Selection resolver\<close>

text \<open>
  \<^verbatim>\<open>
  const selectedItem = React.useMemo(() => {
    if (!selectedItemId) {
      return null;
    }
    const findItem = (items: HierarchyItem[]): HierarchyItem | null => {
      for (const item of items) {
        if (getItemId(item) === selectedItemId) {
          return item;
        }
        const found = findItem(item.children);
        if (found) {
          return found;
        }
      }
      return null;
    };
    return findItem(nodeTree);
  }, [nodeTree, selectedItemId]);
  \<close>
\<close>

fun findItem :: "jsstring \<Rightarrow> hierarchy_item list \<Rightarrow> hierarchy_item option" where
  "findItem sid [] = None"
| "findItem sid (HierarchyItem ni m n cs # items) =
     (if getItemId (HierarchyItem ni m n cs) = sid then Some (HierarchyItem ni m n cs)
      else (case findItem sid cs of
              Some found \<Rightarrow> Some found
            | None \<Rightarrow> findItem sid items))"

definition selectedItem :: "editor_state \<Rightarrow> hierarchy_item option" where
  "selectedItem st =
     (if \<not> truthy (selectedItemId st) then None
      else findItem (the (selectedItemId st)) (nodeTree st))"

text \<open>
  The items of a forest in pre-order: an item, then the items below it, then the items
  after it. Again vocabulary of the specification.
\<close>

fun preorder :: "hierarchy_item list \<Rightarrow> hierarchy_item list" where
  "preorder [] = []"
| "preorder (HierarchyItem ni m n cs # items) =
     HierarchyItem ni m n cs # preorder cs @ preorder items"

section \<open>Component property registry\<close>

text \<open>
  \<^verbatim>\<open>
  export interface PropertyInfo<P, K extends keyof P> {
    Editor: React.ComponentType<{ value: P[K]; onChange?: (value: P[K]) => void }>;
  }
  export interface ComponentInfo<P = object> {
    properties: { [K in keyof P]?: PropertyInfo<P, K> };
  }
  export const components: Map<string | React.ComponentType, ComponentInfo> = new Map();
  export function registerComponent<P>(component, componentInfo) {
    components.set(component as React.ComponentType, componentInfo);
  }
  const DEFAULT_COMPONENT_INFO: ComponentInfo = { properties: {} };
  \<close>
  \<open>properties\<close> is held as the list \<open>Object.entries\<close> returns. \<open>NodeEditor\<close> tests
  \<open>propertyInfo.Editor\<close> before it uses it, so the field may be absent; an editor is the
  reference of its component.
\<close>

record property_info =
  Editor :: "nat option"

record component_info =
  properties :: "(jsstring \<times> property_info) list"

type_synonym components = "component_ref \<rightharpoonup> component_info"

definition registerComponent ::
    "component_ref \<Rightarrow> component_info \<Rightarrow> components \<Rightarrow> components" where
  "registerComponent cref componentInfo cmps = cmps(cref \<mapsto> componentInfo)"

definition DEFAULT_COMPONENT_INFO :: component_info where
  "DEFAULT_COMPONENT_INFO = \<lparr>properties = []\<rparr>"

text \<open>
  A component reference or \<open>null\<close> used as a condition: \<open>null\<close> and the empty tag name
  are falsy, a component type is an object and truthy.
\<close>

fun truthy_component :: "component_ref option \<Rightarrow> bool" where
  "truthy_component None = False"
| "truthy_component (Some (ComponentName s)) = (s \<noteq> [])"
| "truthy_component (Some (ComponentType r src)) = True"

text \<open>
  The lookup at the head of \<open>NodeEditor\<close>:
  \<^verbatim>\<open>
  const componentInfo: ComponentInfo =
    (value?.nodeInfo.component
      ? components.get(value.nodeInfo.component)
      : null) ?? DEFAULT_COMPONENT_INFO;
  \<close>
\<close>

definition componentInfo_of :: "components \<Rightarrow> hierarchy_item \<Rightarrow> component_info" where
  "componentInfo_of cmps v =
     (case (if truthy_component (component (nodeInfo v))
            then cmps (the (component (nodeInfo v)))
            else None) of
        None \<Rightarrow> DEFAULT_COMPONENT_INFO
      | Some componentInfo \<Rightarrow> componentInfo)"

section \<open>Patch emitter\<close>

subsection \<open>Items as objects\<close>

text \<open>
  At run time an item is a plain object with the four properties \<open>findNodes\<close> gives it,
  in that order, and its \<open>nodeInfo\<close> is the object of the registry.
\<close>

fun component_to_js :: "component_ref option \<Rightarrow> jsval" where
  "component_to_js None = JNull"
| "component_to_js (Some (ComponentName s)) = JStr s"
| "component_to_js (Some (ComponentType r src)) = JFun r src"

fun kind_to_js :: "attribute_kind \<Rightarrow> jsval" where
  "kind_to_js Static = JStr (utf16 ''static'')"
| "kind_to_js Dynamic = JStr (utf16 ''dynamic'')"

definition attribute_to_js :: "attribute_info \<Rightarrow> jsval" where
  "attribute_to_js a =
     JObj [(utf16 ''name'', JStr (name a)), (utf16 ''kind'', kind_to_js (kind a)),
           (utf16 ''value'', attr_value a)]"

definition nodeInfo_to_js :: "node_info \<Rightarrow> jsval" where
  "nodeInfo_to_js ni =
     JObj [(utf16 ''jsxTagName'', JStr (jsxTagName ni)),
           (utf16 ''component'', component_to_js (component ni)),
           (utf16 ''attributes'', JArr (map attribute_to_js (attributes ni)))]"

fun own_properties :: "hierarchy_item \<Rightarrow> (jsstring \<times> jsval) list" where
  "own_properties (HierarchyItem ni m n cs) =
     [(utf16 ''nodeInfo'', nodeInfo_to_js ni),
      (utf16 ''moduleId'', JStr m),
      (utf16 ''nodeId'', JStr n),
      (utf16 ''children'', JArr (map (\<lambda>c. JObj (own_properties c)) cs))]"

text \<open>
  \<open>{ ...value, [key]: newFieldValue }\<close>: a copy of the own properties of \<open>value\<close>
  with \<open>key\<close> set. A key the object has keeps its place; a new key comes last, except
  that the keys that are array indices (canonical decimal numbers below \<open>2 ^ 32 - 1\<close>)
  are enumerated first, in ascending order.
\<close>

definition array_index :: "jsstring \<Rightarrow> nat option" where
  "array_index k =
     (if k \<noteq> [] \<and> list_all is_digit k \<and> digits_value k < 4294967295
         \<and> dec_digits (digits_value k) = k
      then Some (digits_value k) else None)"

fun insert_index :: "nat \<Rightarrow> jsstring \<Rightarrow> jsval \<Rightarrow> (jsstring \<times> jsval) list \<Rightarrow> (jsstring \<times> jsval) list" where
  "insert_index i k v [] = [(k, v)]"
| "insert_index i k v ((k', v') # kvs) =
     (case array_index k' of
        Some i' \<Rightarrow> if i' < i then (k', v') # insert_index i k v kvs else (k, v) # (k', v') # kvs
      | None \<Rightarrow> (k, v) # (k', v') # kvs)"

definition obj_set :: "(jsstring \<times> jsval) list \<Rightarrow> jsstring \<Rightarrow> jsval \<Rightarrow> (jsstring \<times> jsval) list" where
  "obj_set kvs k v =
     (if k \<in> fst ` set kvs then map (\<lambda>(k', v'). if k' = k then (k', v) else (k', v')) kvs
      else (case array_index k of
              Some i \<Rightarrow> insert_index i k v kvs
            | None \<Rightarrow> kvs @ [(k, v)]))"

subsection \<open>The diff of two objects\<close>

text \<open>
  Modelled from the spec: \<open>diff\<close> is imported from the package \<open>just-diff\<close>, which is
  not among the source files. The spec describes its result as the ordered list of
  structural diff operations between the pre-edit and the post-edit composite value, an
  operation being of the form \<open>{op, path, value}\<close>, for instance
  \<open>{op:"replace", path:["color"], value:"blue"}\<close>. The model follows the algorithm of the
  package (version 6): \<open>remove\<close> for a key of the first object that the second lacks,
  \<open>add\<close> for a key of the second that the first lacks, \<open>replace\<close> for a key whose
  values differ and are not two containers of the same kind, and the operations of the
  nested comparison otherwise; the result lists the removals in reverse, then the
  replacements, then the additions. A path is the list of keys from the root: a string for
  a property of an object, a number for an element of an array.

  Values are trees here, so the test \<open>obj1AtKey !== obj2AtKey\<close> is inequality of trees.
  For two containers that are equal as trees but distinct as references the package
  descends and finds nothing to report, which is the result for equal trees as well.
  Objects are compared by their own properties.
\<close>

datatype path_key = Key jsstring | Index nat

type_synonym path = "path_key list"

datatype operation = Remove path | Replace path jsval | Add path jsval

fun op_path :: "operation \<Rightarrow> path" where
  "op_path (Remove p) = p"
| "op_path (Replace p v) = p"
| "op_path (Add p v) = p"

record diffs =
  remove :: "operation list"
  replace :: "operation list"
  add :: "operation list"

text \<open>
  \<open>String(x)\<close>, \<open>Object(x) === x\<close>, \<open>Object.prototype.toString.call(x)\<close> and
  \<open>Object.keys(x).length\<close>.
\<close>

fun join_comma :: "jsstring list \<Rightarrow> jsstring" where
  "join_comma [] = []"
| "join_comma [s] = s"
| "join_comma (s # t # ss) = s @ utf16 '','' @ join_comma (t # ss)"

fun js_String :: "jsval \<Rightarrow> jsstring" where
  "js_String JUndefined = utf16 ''undefined''"
| "js_String JNull = utf16 ''null''"
| "js_String (JBool b) = (if b then utf16 ''true'' else utf16 ''false'')"
| "js_String (JNum i) = NumberToString i"
| "js_String (JStr s) = s"
| "js_String (JFun r src) = src"
| "js_String (JArr xs) =
     join_comma (map (\<lambda>x. if x = JUndefined \<or> x = JNull then [] else js_String x) xs)"
| "js_String (JObj kvs) = utf16 ''[object Object]''"

fun is_object :: "jsval \<Rightarrow> bool" where
  "is_object (JFun r src) = True"
| "is_object (JArr xs) = True"
| "is_object (JObj kvs) = True"
| "is_object _ = False"

fun class_of :: "jsval \<Rightarrow> jsstring" where
  "class_of JUndefined = utf16 ''[object Undefined]''"
| "class_of JNull = utf16 ''[object Null]''"
| "class_of (JBool b) = utf16 ''[object Boolean]''"
| "class_of (JNum i) = utf16 ''[object Number]''"
| "class_of (JStr s) = utf16 ''[object String]''"
| "class_of (JFun r src) = utf16 ''[object Function]''"
| "class_of (JArr xs) = utf16 ''[object Array]''"
| "class_of (JObj kvs) = utf16 ''[object Object]''"

definition differentTypes :: "jsval \<Rightarrow> jsval \<Rightarrow> bool" where
  "differentTypes a b = (class_of a \<noteq> class_of b)"

fun keys_length :: "jsval \<Rightarrow> nat" where
  "keys_length (JArr xs) = length xs"
| "keys_length (JObj kvs) = length kvs"
| "keys_length _ = 0"

text \<open>
  \<open>trimFromRight\<close> decides for two arrays, the first one longer, at which end the
  surplus elements are removed: it counts the leading positions at which the elements
  have equal strings, and the trailing ones, the latter in a loop from
  \<open>j = obj2.length\<close> down to \<open>1\<close> over \<open>obj1[j + lengthDelta]\<close> and \<open>obj2[j]\<close>.
  An index out of range reads \<open>undefined\<close>.
\<close>

definition at_index :: "jsval list \<Rightarrow> nat \<Rightarrow> jsval" where
  "at_index xs i = (if i < length xs then xs ! i else JUndefined)"

fun leftMatches :: "jsval list \<Rightarrow> jsval list \<Rightarrow> nat" where
  "leftMatches (a # obj1) (b # obj2) =
     (if js_String a = js_String b then Suc (leftMatches obj1 obj2) else 0)"
| "leftMatches obj1 [] = 0"
| "leftMatches [] (b # obj2) =
     (if js_String JUndefined = js_String b then Suc (leftMatches [] obj2) else 0)"

primrec rightMatches :: "jsval list \<Rightarrow> jsval list \<Rightarrow> nat \<Rightarrow> nat \<Rightarrow> nat" where
  "rightMatches obj1 obj2 lengthDelta 0 = 0"
| "rightMatches obj1 obj2 lengthDelta (Suc j) =
     (if js_String (at_index obj1 (Suc j + lengthDelta)) = js_String (at_index obj2 (Suc j))
      then Suc (rightMatches obj1 obj2 lengthDelta j) else 0)"

definition trimFromRight :: "jsval list \<Rightarrow> jsval list \<Rightarrow> bool" where
  "trimFromRight obj1 obj2 =
     (if length obj1 > length obj2
      then leftMatches obj1 obj2
             \<ge> rightMatches obj1 obj2 (length obj1 - length obj2) (length obj2)
      else True)"

text \<open>
  \<open>getDiff\<close> first records the removals of a level, then calls \<open>pushReplaces\<close> for
  every key of the second container in order. It is entered with two plain objects, with
  two arrays, or with two functions, which have no keys to compare.
\<close>

definition push_remove :: "path \<Rightarrow> diffs \<Rightarrow> diffs" where
  "push_remove p ds = ds\<lparr>remove := remove ds @ [Remove p]\<rparr>"

definition pushReplace :: "path \<Rightarrow> diffs \<Rightarrow> jsval \<Rightarrow> diffs" where
  "pushReplace p ds newValue = ds\<lparr>replace := replace ds @ [Replace p newValue]\<rparr>"

definition push_add :: "path \<Rightarrow> jsval \<Rightarrow> diffs \<Rightarrow> diffs" where
  "push_add p v ds = ds\<lparr>add := add ds @ [Add p v]\<rparr>"

fun removes_obj :: "(jsstring \<times> jsval) list \<Rightarrow> (jsstring \<times> jsval) list \<Rightarrow> path \<Rightarrow> diffs \<Rightarrow> diffs" where
  "removes_obj [] obj2 basePathForRemoves ds = ds"
| "removes_obj ((k, v) # obj1) obj2 basePathForRemoves ds =
     removes_obj obj1 obj2 basePathForRemoves
       (if k \<notin> fst ` set obj2 then push_remove (basePathForRemoves @ [Key k]) ds else ds)"

fun removes_arr :: "nat list \<Rightarrow> path \<Rightarrow> diffs \<Rightarrow> diffs" where
  "removes_arr [] basePathForRemoves ds = ds"
| "removes_arr (i # is) basePathForRemoves ds =
     removes_arr is basePathForRemoves (push_remove (basePathForRemoves @ [Index i]) ds)"

function getDiff :: "jsval \<Rightarrow> jsval \<Rightarrow> path \<Rightarrow> path \<Rightarrow> diffs \<Rightarrow> diffs"
  and replaces_obj :: "(jsstring \<times> jsval) list \<Rightarrow> (jsstring \<times> jsval) list \<Rightarrow> path \<Rightarrow> diffs \<Rightarrow> diffs"
  and replaces_arr :: "jsval list \<Rightarrow> nat \<Rightarrow> jsval list \<Rightarrow> path \<Rightarrow> nat \<Rightarrow> diffs \<Rightarrow> diffs"
  and pushReplaces :: "jsval option \<Rightarrow> jsval \<Rightarrow> path \<Rightarrow> path \<Rightarrow> diffs \<Rightarrow> diffs"
where
  "getDiff obj1 obj2 basePath basePathForRemoves ds =
     (case obj1 of
        JObj kvs1 \<Rightarrow>
          (case obj2 of
             JObj kvs2 \<Rightarrow>
               replaces_obj kvs1 kvs2 basePath (removes_obj kvs1 kvs2 basePathForRemoves ds)
           | _ \<Rightarrow> ds)
      | JArr xs1 \<Rightarrow>
          (case obj2 of
             JArr xs2 \<Rightarrow>
               (if trimFromRight xs1 xs2
                then replaces_arr xs1 0 xs2 basePath 0
                       (removes_arr [length xs2 ..< length xs1] basePathForRemoves ds)
                else replaces_arr (drop (length xs1 - length xs2) xs1) 0 xs2 basePath
                       (length xs1 - length xs2)
                       (removes_arr [0 ..< length xs1 - length xs2] basePathForRemoves ds))
           | _ \<Rightarrow> ds)
      | _ \<Rightarrow> ds)"
| "replaces_obj obj1 [] basePath ds = ds"
| "replaces_obj obj1 ((k, v2) # obj2) basePath ds =
     replaces_obj obj1 obj2 basePath
       (pushReplaces (map_of obj1 k) v2 (basePath @ [Key k]) (basePath @ [Key k]) ds)"
| "replaces_arr obj1 i [] basePath lengthDelta ds = ds"
| "replaces_arr obj1 i (v2 # obj2) basePath lengthDelta ds =
     replaces_arr obj1 (Suc i) obj2 basePath lengthDelta
       (pushReplaces (if i < length obj1 then Some (obj1 ! i) else None) v2
          (basePath @ [Index i]) (basePath @ [Index (i + lengthDelta)]) ds)"
| "pushReplaces obj1AtKey obj2AtKey path pathForRemoves ds =
     (case obj1AtKey of
        None \<Rightarrow> push_add path obj2AtKey ds
      | Some v1 \<Rightarrow>
          (if v1 \<noteq> obj2AtKey then
             (if \<not> is_object v1 \<or> \<not> is_object obj2AtKey \<or> differentTypes v1 obj2AtKey
              then pushReplace path ds obj2AtKey
              else if keys_length v1 = 0 \<and> keys_length obj2AtKey = 0
                      \<and> js_String v1 \<noteq> js_String obj2AtKey
              then pushReplace path ds obj2AtKey
              else getDiff v1 obj2AtKey path pathForRemoves ds)
           else ds))"
  by pat_completeness auto
termination
  apply (relation "inv_image (less_than <*lex*> less_than)
    (case_sum
       (case_sum (\<lambda>(obj1, obj2, bp, bpr, ds). (size obj2, 1::nat))
                 (\<lambda>(obj1, obj2, bp, ds). (size (JObj obj2), 0)))
       (case_sum (\<lambda>(obj1, i, obj2, bp, d, ds). (size (JArr obj2), 0))
                 (\<lambda>(a, b, p, pr, ds). (size b, 2))))")
         apply (intro wf_inv_image wf_lex_prod wf_less_than)
        apply simp_all
  done

text \<open>The call \<open>diff(obj1, obj2)\<close> for two plain objects.\<close>

definition diff :: "(jsstring \<times> jsval) list \<Rightarrow> (jsstring \<times> jsval) list \<Rightarrow> operation list" where
  "diff obj1 obj2 =
     (let ds = getDiff (JObj obj1) (JObj obj2) [] [] \<lparr>remove = [], replace = [], add = []\<rparr>
      in rev (remove ds) @ replace ds @ add ds)"

declare getDiff.simps [simp del] pushReplaces.simps [simp del]

text \<open>A property of the paths of all operations collected so far.\<close>

definition all_paths :: "(path \<Rightarrow> bool) \<Rightarrow> diffs \<Rightarrow> bool" where
  "all_paths Q ds =
     (list_all (\<lambda>x. Q (op_path x)) (remove ds) \<and> list_all (\<lambda>x. Q (op_path x)) (replace ds)
      \<and> list_all (\<lambda>x. Q (op_path x)) (add ds))"

subsection \<open>The property panel\<close>

text \<open>
  \<open>saveNodeProperties\<close> is imported from \<open>./api\<close>; the editor only calls it. The calls
  are recorded in order, beside the state of \<open>Editor\<close>.
\<close>

record world =
  editor :: editor_state
  saved :: "(jsstring \<times> jsstring \<times> operation list) list"

definition saveNodeProperties :: "jsstring \<Rightarrow> jsstring \<Rightarrow> operation list \<Rightarrow> world \<Rightarrow> world" where
  "saveNodeProperties mid nid patches w = w\<lparr>saved := saved w @ [(mid, nid, patches)]\<rparr>"

text \<open>
  \<^verbatim>\<open>
  const handleChange = (key: string) => (newFieldValue: unknown) => {
    const newValue = { ...value, [key]: newFieldValue };
    const patches = diff(value, newValue as any);
    saveNodeProperties(value.moduleId, value.nodeId, patches);
  };
  \<close>
\<close>

definition handleChange :: "hierarchy_item \<Rightarrow> jsstring \<Rightarrow> jsval \<Rightarrow> world \<Rightarrow> world" where
  "handleChange v key newFieldValue w =
     (let newValue = obj_set (own_properties v) key newFieldValue;
          patches = diff (own_properties v) newValue
      in saveNodeProperties (moduleId v) (nodeId v) patches w)"

text \<open>
  What \<open>NodeEditor\<close> renders for each entry of the component's properties: the editor of
  the property with the value of the static attribute of that name (\<open>null\<close> without one)
  and \<open>handleChange(key)\<close> as its \<open>onChange\<close>, or the text "Editor not found".
  \<^verbatim>\<open>
  const attributeValue = value.nodeInfo.attributes
    .filter((attr) => attr.kind === "static")
    .find((attr) => attr.name === key)?.value;
  ...
  {propertyInfo.Editor ? (
    <propertyInfo.Editor value={attributeValue ?? null} onChange={handleChange(key)} />
  ) : (
    <Typography>Editor not found</Typography>
  )}
  \<close>
\<close>

datatype editor_row = PropertyEditor jsstring nat jsval | EditorNotFound jsstring

definition attributeValue :: "hierarchy_item \<Rightarrow> jsstring \<Rightarrow> jsval" where
  "attributeValue v key =
     (case List.find (\<lambda>attr. name attr = key)
             (filter (\<lambda>attr. kind attr = Static) (attributes (nodeInfo v))) of
        None \<Rightarrow> JUndefined
      | Some attr \<Rightarrow> attr_value attr)"

definition nullish_or :: "jsval \<Rightarrow> jsval \<Rightarrow> jsval" where
  "nullish_or x d = (if x = JUndefined \<or> x = JNull then d else x)"

definition NodeEditor :: "components \<Rightarrow> hierarchy_item \<Rightarrow> editor_row list" where
  "NodeEditor cmps v =
     map (\<lambda>(key, propertyInfo).
            case Editor propertyInfo of
              Some ed \<Rightarrow> PropertyEditor key ed (nullish_or (attributeValue v key) JNull)
            | None \<Rightarrow> EditorNotFound key)
         (properties (componentInfo_of cmps v))"

text \<open>The \<open>onChange\<close> callback of a rendered row of the panel of item \<open>v\<close>.\<close>

fun onChange :: "hierarchy_item \<Rightarrow> editor_row \<Rightarrow> jsval \<Rightarrow> world \<Rightarrow> world" where
  "onChange v (PropertyEditor key ed val) newFieldValue w = handleChange v key newFieldValue w"
| "onChange v (EditorNotFound key) newFieldValue w = w"

text \<open>
  Selecting an item in the tree view (\<open>onSelectedItemsChange\<close>) stores its identity, and
  the panel shows the rows of the selected item, if there is one.
\<close>

definition setSelectedItemId :: "jsstring option \<Rightarrow> editor_state \<Rightarrow> editor_state" where
  "setSelectedItemId item st = st\<lparr>selectedItemId := item\<rparr>"

definition property_panel :: "components \<Rightarrow> editor_state \<Rightarrow> editor_row list" where
  "property_panel cmps st =
     (case selectedItem st of None \<Rightarrow> [] | Some item \<Rightarrow> NodeEditor cmps item)"

section \<open>Properties of the identity function\<close>

lemma ToInt32_bounds: "- 2147483648 \<le> ToInt32 x \<and> ToInt32 x \<le> 2147483647"
  unfolding ToInt32_def using sint_range_size [of "word_of_int x :: 32 word"]
  by (simp add: word_size)

lemma shl_bounds: "- 2147483648 \<le> shl x n \<and> shl x n \<le> 2147483647"
  unfolding shl_def by (rule ToInt32_bounds)

lemma hash_while_bounds:
  "- 2147483648 \<le> h \<Longrightarrow> h \<le> 2147483647 \<Longrightarrow>
   - 2147483648 \<le> hash_while h str \<and> hash_while h str \<le> 2147483647"
  by (induction str arbitrary: h) (simp_all add: shl_bounds)

lemma digit_cases: "d < 10 \<Longrightarrow> d \<in> {0, 1, 2, 3, 4, 5, 6, 7, 8, 9::nat}"
  by auto

lemma digit_is_digit: "d < 10 \<Longrightarrow> is_digit (digit d)"
  using digit_cases [of d] unfolding is_digit_def digit_def by auto

lemma unat_digit: "d < 10 \<Longrightarrow> unat (digit d) - 48 = d"
  using digit_cases [of d] unfolding digit_def by auto

lemma dec_digits_digits: "list_all is_digit (dec_digits n)"
proof (induction n rule: dec_digits.induct)
  case (1 n)
  show ?case
  proof (cases "n < 10")
    case True
    then show ?thesis by (subst dec_digits.simps) (simp add: digit_is_digit)
  next
    case False
    with 1 show ?thesis by (subst dec_digits.simps) (simp add: digit_is_digit)
  qed
qed

lemma dec_digits_nonempty: "dec_digits n \<noteq> []"
  by (subst dec_digits.simps) simp

lemma digits_value_dec_digits: "digits_value (dec_digits n) = n"
proof (induction n rule: dec_digits.induct)
  case (1 n)
  show ?case
  proof (cases "n < 10")
    case True
    then show ?thesis
      by (subst dec_digits.simps) (simp add: digits_value_def unat_digit)
  next
    case False
    with 1 have "digits_value (dec_digits (n div 10)) = n div 10" by simp
    with False show ?thesis
      by (subst dec_digits.simps) (simp add: digits_value_def unat_digit)
  qed
qed

text \<open>
  Claim C7. The identity of a hierarchy item is a function of its \<open>moduleId\<close> and
  \<open>nodeId\<close> alone: two items that agree on both fields have the same identity string,
  whatever their \<open>nodeInfo\<close>, their children or their place in the forest. Being a HOL
  function of the item, \<open>getItemId\<close> reads no other state, so repeated calls agree.
\<close>

theorem getItemId_pure:
  "moduleId a = moduleId b \<Longrightarrow> nodeId a = nodeId b \<Longrightarrow> getItemId a = getItemId b"
  by (simp add: getItemId_def)

theorem getItemId_pure_witness:
  "getItemId
     (HierarchyItem \<lparr>jsxTagName = utf16 ''div'', component = None, attributes = []\<rparr>
        (utf16 ''a'') (utf16 ''b'') [])
   = getItemId
     (HierarchyItem
        \<lparr>jsxTagName = utf16 ''Button'', component = Some (ComponentType 7 (utf16 ''function Button() {}'')), attributes = []\<rparr>
        (utf16 ''a'') (utf16 ''b'')
        [HierarchyItem \<lparr>jsxTagName = utf16 ''p'', component = None, attributes = []\<rparr>
           (utf16 ''a'') (utf16 ''c'') []])"
  by (rule getItemId_pure) simp_all

text \<open>
  Claim C8. For every pair of strings the identity function returns a value (it is total,
  with no error branch). The rolling hash \<open>h\<close> over the code units of
  \<open>moduleId:nodeId\<close> is a 32-bit signed integer, so \<open>h + 2147483647 + 1\<close> lies between
  \<open>0\<close> and \<open>2 ^ 32 - 1\<close>, and the identity is the decimal representation of that
  number: a non-empty string of digits whose decimal value is \<open>h + 2147483647 + 1\<close>.
\<close>

theorem getItemId_range:
  fixes m n :: jsstring
  defines "h \<equiv> hash_while 0 (m @ utf16 '':'' @ n)"
  shows "- 2147483648 \<le> h \<and> h \<le> 2147483647
    \<and> 0 \<le> h + 2147483647 + 1 \<and> h + 2147483647 + 1 \<le> 4294967295
    \<and> getItemId (HierarchyItem ni m n cs) = NumberToString (h + 2147483647 + 1)
    \<and> getItemId (HierarchyItem ni m n cs) \<noteq> []
    \<and> list_all is_digit (getItemId (HierarchyItem ni m n cs))
    \<and> int (digits_value (getItemId (HierarchyItem ni m n cs))) = h + 2147483647 + 1"
proof -
  have b: "- 2147483648 \<le> h \<and> h \<le> 2147483647"
    unfolding h_def by (rule hash_while_bounds) simp_all
  have s: "getItemId (HierarchyItem ni m n cs) = NumberToString (h + 2147483647 + 1)"
    by (simp add: getItemId_def hash_def h_def)
  have g: "NumberToString (h + 2147483647 + 1) = dec_digits (nat (h + 2147483647 + 1))"
    using b by (simp add: NumberToString_def)
  have e: "getItemId (HierarchyItem ni m n cs) \<noteq> []"
    unfolding s g by (rule dec_digits_nonempty)
  have d: "list_all is_digit (getItemId (HierarchyItem ni m n cs))"
    unfolding s g by (rule dec_digits_digits)
  have v: "int (digits_value (getItemId (HierarchyItem ni m n cs))) = h + 2147483647 + 1"
    unfolding s g using b by (simp add: digits_value_dec_digits)
  from b s e d v show ?thesis by simp
qed

theorem getItemId_range_witness:
  "hash_while 0 (utf16 ''a'' @ utf16 '':'' @ utf16 ''b'') = 95113
   \<and> getItemId
       (HierarchyItem \<lparr>jsxTagName = utf16 ''div'', component = None, attributes = []\<rparr>
          (utf16 ''a'') (utf16 ''b'') [])
     = NumberToString 2147578761
   \<and> list_all is_digit
       (getItemId
         (HierarchyItem \<lparr>jsxTagName = utf16 ''div'', component = None, attributes = []\<rparr>
            (utf16 ''a'') (utf16 ''b'') []))"
proof -
  have h: "hash_while 0 (utf16 ''a'' @ utf16 '':'' @ utf16 ''b'') = 95113"
    by (simp add: utf16_def shl_def ToInt32_def charCode_def)
  note r = getItemId_range
      [of "utf16 ''a''" "utf16 ''b''"
        "\<lparr>jsxTagName = utf16 ''div'', component = None, attributes = []\<rparr>" "[]"]
  from r have "getItemId
       (HierarchyItem \<lparr>jsxTagName = utf16 ''div'', component = None, attributes = []\<rparr>
          (utf16 ''a'') (utf16 ''b'') [])
     = NumberToString (hash_while 0 (utf16 ''a'' @ utf16 '':'' @ utf16 ''b'') + 2147483647 + 1)"
    by blast
  then have a: "getItemId
       (HierarchyItem \<lparr>jsxTagName = utf16 ''div'', component = None, attributes = []\<rparr>
          (utf16 ''a'') (utf16 ''b'') [])
     = NumberToString 2147578761"
    by (simp add: h)
  from r have d: "list_all is_digit
       (getItemId
         (HierarchyItem \<lparr>jsxTagName = utf16 ''div'', component = None, attributes = []\<rparr>
            (utf16 ''a'') (utf16 ''b'') []))"
    by blast
  from h a d show ?thesis by blast
qed

section \<open>Properties of the tree synchronizer\<close>

lemma findNodes_identified:
  "identified attrs \<Longrightarrow>
   findNodes ms (HTMLElement attrs childNodes # elms) =
     (case getNodeInfo ms (the (getAttribute attrs (utf16 ''data-mui-live-module-id'')))
             (the (getAttribute attrs (utf16 ''data-mui-live-node-id''))) of
        None \<Rightarrow> Inl (NodeInfoNotDefined (the (getAttribute attrs (utf16 ''data-mui-live-node-id'')))
                  (the (getAttribute attrs (utf16 ''data-mui-live-module-id''))))
      | Some ni \<Rightarrow>
          (case findNodes ms childNodes of
             Inl e \<Rightarrow> Inl e
           | Inr cs \<Rightarrow>
               (case findNodes ms elms of
                  Inl e \<Rightarrow> Inl e
                | Inr rest \<Rightarrow>
                    Inr (HierarchyItem ni (the (getAttribute attrs (utf16 ''data-mui-live-module-id'')))
                          (the (getAttribute attrs (utf16 ''data-mui-live-node-id''))) cs # rest))))"
  by (simp add: identified_def Let_def)

lemma findNodes_transparent:
  "\<not> identified attrs \<Longrightarrow>
   findNodes ms (HTMLElement attrs childNodes # elms) =
     (case findNodes ms childNodes of
        Inl e \<Rightarrow> Inl e
      | Inr cs \<Rightarrow>
          (case findNodes ms elms of Inl e \<Rightarrow> Inl e | Inr rest \<Rightarrow> Inr (cs @ rest)))"
  by (auto simp: identified_def Let_def)

lemma findNodes_append:
  "findNodes ms (xs @ ys) =
     (case findNodes ms xs of
        Inl e \<Rightarrow> Inl e
      | Inr a \<Rightarrow> (case findNodes ms ys of Inl e \<Rightarrow> Inl e | Inr b \<Rightarrow> Inr (a @ b)))"
proof (induction xs rule: reached_marked.induct)
  case 1
  show ?case by (simp split: sum.splits)
next
  case (2 elms)
  then show ?case by simp
next
  case (3 attrs childNodes elms)
  show ?case
  proof (cases "identified attrs")
    case True
    then show ?thesis
      using 3 by (simp add: findNodes_identified del: findNodes.simps(3) split: sum.splits option.splits)
  next
    case False
    then show ?thesis
      using 3 by (simp add: findNodes_transparent del: findNodes.simps(3) split: sum.splits)
  qed
next
  case (4 attrs childNodes elms)
  then show ?case by simp
qed

lemma reached_marked_append: "reached_marked (xs @ ys) = reached_marked xs @ reached_marked ys"
  by (induction xs rule: reached_marked.induct) simp_all

lemma expected_forest_append:
  "expected_forest ms (xs @ ys) = expected_forest ms xs @ expected_forest ms ys"
  by (induction ms xs rule: expected_forest.induct) simp_all

lemma findNodes_missing:
  "(m, n) \<in> set (reached_marked elms) \<Longrightarrow> getNodeInfo ms m n = None \<Longrightarrow>
   \<exists>e. findNodes ms elms = Inl e"
proof (induction elms rule: reached_marked.induct)
  case 1
  then show ?case by simp
next
  case (2 elms)
  then show ?case by simp
next
  case (3 attrs childNodes elms)
  show ?case
  proof (cases "identified attrs")
    case True
    then show ?thesis
      using 3 by (auto simp: findNodes_identified simp del: findNodes.simps(3) split: sum.splits option.splits)
  next
    case False
    then show ?thesis
      using 3 by (auto simp: findNodes_transparent simp del: findNodes.simps(3) split: sum.splits)
  qed
next
  case (4 attrs childNodes elms)
  then show ?case by simp
qed

lemma findNodes_Inl:
  "findNodes ms elms = Inl e \<Longrightarrow>
   \<exists>m n. e = NodeInfoNotDefined n m \<and> (m, n) \<in> set (reached_marked elms)
     \<and> getNodeInfo ms m n = None"
proof (induction elms rule: reached_marked.induct)
  case 1
  then show ?case by simp
next
  case (2 elms)
  then show ?case by simp
next
  case (3 attrs childNodes elms)
  show ?case
  proof (cases "identified attrs")
    case True
    then show ?thesis
      using 3 by (auto simp: findNodes_identified simp del: findNodes.simps(3) split: sum.splits option.splits)
  next
    case False
    then show ?thesis
      using 3 by (auto simp: findNodes_transparent simp del: findNodes.simps(3) split: sum.splits)
  qed
next
  case (4 attrs childNodes elms)
  then show ?case by simp
qed

lemma preorder_append: "preorder (xs @ ys) = preorder xs @ preorder ys"
  by (induction xs rule: preorder.induct) simp_all

lemma findNodes_complete:
  "findNodes ms elms = Inr items \<Longrightarrow>
   map (\<lambda>i. (moduleId i, nodeId i)) (preorder items) = reached_marked elms"
proof (induction elms arbitrary: items rule: reached_marked.induct)
  case 1
  then show ?case by simp
next
  case (2 elms)
  then show ?case by simp
next
  case (3 attrs childNodes elms)
  show ?case
  proof (cases "identified attrs")
    case True
    then show ?thesis
      using 3 by (auto simp: findNodes_identified simp del: findNodes.simps(3) split: sum.splits option.splits)
  next
    case False
    then show ?thesis
      using 3 by (auto simp: findNodes_transparent preorder_append simp del: findNodes.simps(3) split: sum.splits)
  qed
next
  case (4 attrs childNodes elms)
  then show ?case by simp
qed

lemma findNodes_expected:
  "\<forall>(m, n) \<in> set (reached_marked elms). getNodeInfo ms m n \<noteq> None \<Longrightarrow>
   findNodes ms elms = Inr (expected_forest ms elms)"
proof (induction elms rule: reached_marked.induct)
  case 1
  then show ?case by simp
next
  case (2 elms)
  then show ?case by simp
next
  case (3 attrs childNodes elms)
  show ?case
  proof (cases "identified attrs")
    case True
    then show ?thesis
      using 3 by (auto simp: findNodes_identified simp del: findNodes.simps(3) split: sum.splits option.splits)
  next
    case False
    then show ?thesis
      using 3 by (auto simp: findNodes_transparent simp del: findNodes.simps(3) split: sum.splits)
  qed
next
  case (4 attrs childNodes elms)
  then show ?case by simp
qed

text \<open>
  Claim C2, as amended. Take the elements that are instances of \<open>HTMLElement\<close> and
  stand below the canvas with only \<open>HTMLElement\<close> instances in between; such an element
  carries both identity markers when both marker attributes are present with a non-empty
  value. If one of them carries both markers and the registry has no \<open>NodeInfo\<close> under
  its \<open>(moduleId, nodeId)\<close>, then the walk does not return a forest: it ends with the
  error of the failed \<open>invariant\<close> for such an element without an entry, and the callback
  of the observer ends with the same error instead of storing a new \<open>nodeTree\<close>.
\<close>

theorem rebuild_fails_on_missing_nodeInfo:
  assumes "(m, n) \<in> set (reached_marked elms)" and "getNodeInfo ms m n = None"
  shows "\<exists>m' n'. (m', n') \<in> set (reached_marked elms) \<and> getNodeInfo ms m' n' = None
           \<and> findNodes ms elms = Inl (NodeInfoNotDefined n' m')
           \<and> observer_callback ms (Some elms) st = Inl (NodeInfoNotDefined n' m')"
proof -
  from assms obtain e where e: "findNodes ms elms = Inl e"
    using findNodes_missing by blast
  then obtain m' n' where "e = NodeInfoNotDefined n' m'"
      "(m', n') \<in> set (reached_marked elms)" "getNodeInfo ms m' n' = None"
    using findNodes_Inl by blast
  with e show ?thesis
    by (auto simp: observer_callback_def)
qed

theorem rebuild_fails_on_missing_nodeInfo_witness:
  "(utf16 ''m'', utf16 ''2'')
     \<in> set (reached_marked
         [HTMLElement [(utf16 ''data-mui-live-module-id'', utf16 ''m''),
                       (utf16 ''data-mui-live-node-id'', utf16 ''1'')] [],
          HTMLElement []
            [HTMLElement [(utf16 ''data-mui-live-module-id'', utf16 ''m''),
                       (utf16 ''data-mui-live-node-id'', utf16 ''2'')] []]])
   \<and> getNodeInfo
         [utf16 ''m'' \<mapsto>
            \<lparr>nodes = [utf16 ''1'' \<mapsto>
               \<lparr>jsxTagName = utf16 ''div'', component = None, attributes = []\<rparr>]\<rparr>]
         (utf16 ''m'') (utf16 ''2'') = None
   \<and> (\<exists>m' n'.
         findNodes
           [utf16 ''m'' \<mapsto>
            \<lparr>nodes = [utf16 ''1'' \<mapsto>
               \<lparr>jsxTagName = utf16 ''div'', component = None, attributes = []\<rparr>]\<rparr>]
           [HTMLElement [(utf16 ''data-mui-live-module-id'', utf16 ''m''),
                       (utf16 ''data-mui-live-node-id'', utf16 ''1'')] [],
          HTMLElement []
            [HTMLElement [(utf16 ''data-mui-live-module-id'', utf16 ''m''),
                       (utf16 ''data-mui-live-node-id'', utf16 ''2'')] []]]
         = Inl (NodeInfoNotDefined n' m')
       \<and> observer_callback
           [utf16 ''m'' \<mapsto>
            \<lparr>nodes = [utf16 ''1'' \<mapsto>
               \<lparr>jsxTagName = utf16 ''div'', component = None, attributes = []\<rparr>]\<rparr>]
           (Some
             [HTMLElement [(utf16 ''data-mui-live-module-id'', utf16 ''m''),
                       (utf16 ''data-mui-live-node-id'', utf16 ''1'')] [],
          HTMLElement []
            [HTMLElement [(utf16 ''data-mui-live-module-id'', utf16 ''m''),
                       (utf16 ''data-mui-live-node-id'', utf16 ''2'')] []]])
           \<lparr>nodeTree = [], selectedItemId = None\<rparr>
         = Inl (NodeInfoNotDefined n' m'))"
proof -
  let ?ms = "[utf16 ''m'' \<mapsto>
            \<lparr>nodes = [utf16 ''1'' \<mapsto>
               \<lparr>jsxTagName = utf16 ''div'', component = None, attributes = []\<rparr>]\<rparr>]"
  let ?elms = "[HTMLElement [(utf16 ''data-mui-live-module-id'', utf16 ''m''),
                       (utf16 ''data-mui-live-node-id'', utf16 ''1'')] [],
          HTMLElement []
            [HTMLElement [(utf16 ''data-mui-live-module-id'', utf16 ''m''),
                       (utf16 ''data-mui-live-node-id'', utf16 ''2'')] []]]"
  have a: "(utf16 ''m'', utf16 ''2'') \<in> set (reached_marked ?elms)"
    by (simp add: identified_def getAttribute_def truthy_def utf16_def)
  have b: "getNodeInfo ?ms (utf16 ''m'') (utf16 ''2'') = None"
    by (simp add: getNodeInfo_def utf16_def)
  from rebuild_fails_on_missing_nodeInfo [OF a b, of "\<lparr>nodeTree = [], selectedItemId = None\<rparr>"]
  have c: "\<exists>m' n'. findNodes ?ms ?elms = Inl (NodeInfoNotDefined n' m')
      \<and> observer_callback ?ms (Some ?elms) \<lparr>nodeTree = [], selectedItemId = None\<rparr>
          = Inl (NodeInfoNotDefined n' m')"
    by blast
  from a b c show ?thesis by blast
qed

text \<open>
  Claim C2 as stated fails for an element that is not an instance of \<open>HTMLElement\<close>. An
  SVG element carries both markers and the registry has no entry for them; the walk
  skips the element without a lookup and returns the empty forest, and the callback
  stores it.
\<close>

theorem rebuild_skips_marked_other_element_counterexample:
  "(utf16 ''m'', utf16 ''2'')
     \<in> set (marked_elements
         [OtherElement [(utf16 ''data-mui-live-module-id'', utf16 ''m''),
                        (utf16 ''data-mui-live-node-id'', utf16 ''2'')] []])
   \<and> getNodeInfo
         [utf16 ''m'' \<mapsto>
            \<lparr>nodes = [utf16 ''1'' \<mapsto>
               \<lparr>jsxTagName = utf16 ''div'', component = None, attributes = []\<rparr>]\<rparr>]
         (utf16 ''m'') (utf16 ''2'') = None
   \<and> findNodes
         [utf16 ''m'' \<mapsto>
            \<lparr>nodes = [utf16 ''1'' \<mapsto>
               \<lparr>jsxTagName = utf16 ''div'', component = None, attributes = []\<rparr>]\<rparr>]
         [OtherElement [(utf16 ''data-mui-live-module-id'', utf16 ''m''),
                        (utf16 ''data-mui-live-node-id'', utf16 ''2'')] []]
       = Inr []
   \<and> observer_callback
         [utf16 ''m'' \<mapsto>
            \<lparr>nodes = [utf16 ''1'' \<mapsto>
               \<lparr>jsxTagName = utf16 ''div'', component = None, attributes = []\<rparr>]\<rparr>]
         (Some [OtherElement [(utf16 ''data-mui-live-module-id'', utf16 ''m''),
                        (utf16 ''data-mui-live-node-id'', utf16 ''2'')] []])
         \<lparr>nodeTree = [], selectedItemId = None\<rparr>
       = Inr \<lparr>nodeTree = [], selectedItemId = None\<rparr>"
  by (simp add: identified_def getAttribute_def truthy_def getNodeInfo_def
        observer_callback_def utf16_def)

text \<open>
  Claim C3, as amended. An instance of \<open>HTMLElement\<close> that does not carry both markers
  gets no item of its own: the walk descends into it, and the items of its child nodes
  stand in its parent's list in its place, before the items of the nodes after it. So the
  walk over such an element followed by the nodes \<open>elms\<close> is the walk over its child
  nodes followed by \<open>elms\<close>. When every marked element reached below it and in
  \<open>elms\<close> has an entry in the registry, the result is the forest the specification
  describes for the child nodes followed by the one for \<open>elms\<close>: no item for the
  wrapper, every marked element below it as an item with its own children. A node that is
  not an instance of \<open>HTMLElement\<close>, whether a node that is no element or an element of
  another namespace, contributes nothing, and nothing below it is visited. The witness is
  a wrapper around two marked children and a text node, the first child with marked
  content of its own.
\<close>

theorem transparent_elements_are_flattened:
  assumes "\<not> identified attrs"
  shows "findNodes ms (HTMLElement attrs childNodes # elms) = findNodes ms (childNodes @ elms)
       \<and> ((\<forall>(m, n) \<in> set (reached_marked childNodes @ reached_marked elms).
              getNodeInfo ms m n \<noteq> None) \<longrightarrow>
            findNodes ms (HTMLElement attrs childNodes # elms)
              = Inr (expected_forest ms childNodes @ expected_forest ms elms))
       \<and> (\<forall>items. findNodes ms (HTMLElement attrs childNodes # elms) = Inr items \<longrightarrow>
            map (\<lambda>i. (moduleId i, nodeId i)) (preorder items)
              = reached_marked childNodes @ reached_marked elms)
       \<and> findNodes ms (OtherNode # elms) = findNodes ms elms
       \<and> findNodes ms (OtherElement attrs' childNodes' # elms) = findNodes ms elms"
proof -
  have a: "findNodes ms (HTMLElement attrs childNodes # elms) = findNodes ms (childNodes @ elms)"
    using assms by (simp add: findNodes_transparent findNodes_append del: findNodes.simps(3))
  have b: "(\<forall>(m, n) \<in> set (reached_marked childNodes @ reached_marked elms).
              getNodeInfo ms m n \<noteq> None) \<longrightarrow>
            findNodes ms (HTMLElement attrs childNodes # elms)
              = Inr (expected_forest ms childNodes @ expected_forest ms elms)"
    unfolding a
    using findNodes_expected [of "childNodes @ elms" ms]
    by (simp add: reached_marked_append expected_forest_append)
  have c: "\<forall>items. findNodes ms (HTMLElement attrs childNodes # elms) = Inr items \<longrightarrow>
            map (\<lambda>i. (moduleId i, nodeId i)) (preorder items)
              = reached_marked childNodes @ reached_marked elms"
    unfolding a
    using findNodes_complete [of ms "childNodes @ elms"]
    by (simp add: reached_marked_append)
  from a b c show ?thesis by simp
qed

theorem transparent_elements_are_flattened_witness:
  "\<not> identified [(utf16 ''class'', utf16 ''wrapper'')]
   \<and> findNodes
       [utf16 ''m'' \<mapsto>
          \<lparr>nodes = [utf16 ''1'' \<mapsto>
               \<lparr>jsxTagName = utf16 ''div'', component = None, attributes = []\<rparr>,
             utf16 ''2'' \<mapsto>
               \<lparr>jsxTagName = utf16 ''span'', component = None, attributes = []\<rparr>]\<rparr>]
       [HTMLElement [(utf16 ''class'', utf16 ''wrapper'')]
          [HTMLElement [(utf16 ''data-mui-live-module-id'', utf16 ''m''),
                       (utf16 ''data-mui-live-node-id'', utf16 ''1'')] [HTMLElement [] [OtherNode, HTMLElement [(utf16 ''data-mui-live-module-id'', utf16 ''m''),
                       (utf16 ''data-mui-live-node-id'', utf16 ''2'')] []]],
           OtherNode,
           HTMLElement [(utf16 ''data-mui-live-module-id'', utf16 ''m''),
                       (utf16 ''data-mui-live-node-id'', utf16 ''2'')] []]]
     = Inr [HierarchyItem \<lparr>jsxTagName = utf16 ''div'', component = None, attributes = []\<rparr>
              (utf16 ''m'') (utf16 ''1'')
              [HierarchyItem \<lparr>jsxTagName = utf16 ''span'', component = None, attributes = []\<rparr>
              (utf16 ''m'') (utf16 ''2'') []],
            HierarchyItem \<lparr>jsxTagName = utf16 ''span'', component = None, attributes = []\<rparr>
              (utf16 ''m'') (utf16 ''2'') []]"
proof -
  let ?ms = "[utf16 ''m'' \<mapsto>
          \<lparr>nodes = [utf16 ''1'' \<mapsto>
               \<lparr>jsxTagName = utf16 ''div'', component = None, attributes = []\<rparr>,
             utf16 ''2'' \<mapsto>
               \<lparr>jsxTagName = utf16 ''span'', component = None, attributes = []\<rparr>]\<rparr>]"
  let ?kids = "[HTMLElement [(utf16 ''data-mui-live-module-id'', utf16 ''m''),
                       (utf16 ''data-mui-live-node-id'', utf16 ''1'')] [HTMLElement [] [OtherNode, HTMLElement [(utf16 ''data-mui-live-module-id'', utf16 ''m''),
                       (utf16 ''data-mui-live-node-id'', utf16 ''2'')] []]],
           OtherNode,
           HTMLElement [(utf16 ''data-mui-live-module-id'', utf16 ''m''),
                       (utf16 ''data-mui-live-node-id'', utf16 ''2'')] []]"
  have a: "\<not> identified [(utf16 ''class'', utf16 ''wrapper'')]"
    by (simp add: identified_def getAttribute_def truthy_def utf16_def)
  have r: "\<forall>(m, n) \<in> set (reached_marked ?kids @ reached_marked []).
      getNodeInfo ?ms m n \<noteq> None"
    by (simp add: identified_def getAttribute_def truthy_def getNodeInfo_def utf16_def)
  have e: "expected_forest ?ms ?kids @ expected_forest ?ms [] =
     [HierarchyItem \<lparr>jsxTagName = utf16 ''div'', component = None, attributes = []\<rparr>
              (utf16 ''m'') (utf16 ''1'')
              [HierarchyItem \<lparr>jsxTagName = utf16 ''span'', component = None, attributes = []\<rparr>
              (utf16 ''m'') (utf16 ''2'') []],
            HierarchyItem \<lparr>jsxTagName = utf16 ''span'', component = None, attributes = []\<rparr>
              (utf16 ''m'') (utf16 ''2'') []]"
    by (simp add: identified_def getAttribute_def truthy_def getNodeInfo_def utf16_def)
  from transparent_elements_are_flattened [OF a, of ?ms ?kids "[]"] r
  have "findNodes ?ms [HTMLElement [(utf16 ''class'', utf16 ''wrapper'')] ?kids]
          = Inr (expected_forest ?ms ?kids @ expected_forest ?ms [])"
    by blast
  then have c: "findNodes ?ms [HTMLElement [(utf16 ''class'', utf16 ''wrapper'')] ?kids] =
     Inr [HierarchyItem \<lparr>jsxTagName = utf16 ''div'', component = None, attributes = []\<rparr>
              (utf16 ''m'') (utf16 ''1'')
              [HierarchyItem \<lparr>jsxTagName = utf16 ''span'', component = None, attributes = []\<rparr>
              (utf16 ''m'') (utf16 ''2'') []],
            HierarchyItem \<lparr>jsxTagName = utf16 ''span'', component = None, attributes = []\<rparr>
              (utf16 ''m'') (utf16 ''2'') []]"
    unfolding e .
  from a c show ?thesis by (rule conjI)
qed

text \<open>
  Claim C3 as stated fails for an element that is not an instance of \<open>HTMLElement\<close>. An
  SVG element without markers wraps a marked element that the registry knows; the walk
  over the child nodes alone yields the item, the walk over the wrapper yields nothing:
  the walk does not descend into the wrapper and the child's item is lost.
\<close>

theorem other_element_is_not_flattened_counterexample:
  "\<not> identified []
   \<and> findNodes
       [utf16 ''m'' \<mapsto>
            \<lparr>nodes = [utf16 ''1'' \<mapsto>
               \<lparr>jsxTagName = utf16 ''div'', component = None, attributes = []\<rparr>]\<rparr>]
       [HTMLElement [(utf16 ''data-mui-live-module-id'', utf16 ''m''),
                       (utf16 ''data-mui-live-node-id'', utf16 ''1'')] []]
     = Inr [HierarchyItem \<lparr>jsxTagName = utf16 ''div'', component = None, attributes = []\<rparr>
              (utf16 ''m'') (utf16 ''1'') []]
   \<and> findNodes
       [utf16 ''m'' \<mapsto>
            \<lparr>nodes = [utf16 ''1'' \<mapsto>
               \<lparr>jsxTagName = utf16 ''div'', component = None, attributes = []\<rparr>]\<rparr>]
       [OtherElement []
          [HTMLElement [(utf16 ''data-mui-live-module-id'', utf16 ''m''),
                       (utf16 ''data-mui-live-node-id'', utf16 ''1'')] []]]
     = Inr []"
  by (simp add: identified_def getAttribute_def truthy_def getNodeInfo_def utf16_def)

section \<open>Properties of the selection resolver and the registry\<close>

lemma find_app:
  "List.find P (xs @ ys) = (case List.find P xs of Some x \<Rightarrow> Some x | None \<Rightarrow> List.find P ys)"
  by (induction xs) simp_all

lemma findItem_find:
  "findItem sid items = List.find (\<lambda>i. getItemId i = sid) (preorder items)"
  by (induction sid items rule: findItem.induct) (auto simp: find_app split: option.splits)


lemma NumberToString_nonempty: "NumberToString i \<noteq> []"
  by (simp add: NumberToString_def dec_digits_nonempty)

lemma getItemId_nonempty: "getItemId item \<noteq> []"
  by (simp add: getItemId_def hash_def NumberToString_nonempty)

text \<open>
  Claim C5. The selection resolver is a total function with an optional result. With no
  selection identity the result is none; otherwise it is the first item, in pre-order
  over the forest, whose identity equals the selection identity, and none when no item of
  the forest has that identity (as after a rebuild that removed the selected node).
\<close>

theorem selectedItem_resolves:
  "selectedItem st =
     (case selectedItemId st of
        None \<Rightarrow> None
      | Some sid \<Rightarrow> List.find (\<lambda>item. getItemId item = sid) (preorder (nodeTree st)))
   \<and> (selectedItemId st = None \<longrightarrow> selectedItem st = None)
   \<and> ((\<forall>item \<in> set (preorder (nodeTree st)). Some (getItemId item) \<noteq> selectedItemId st)
        \<longrightarrow> selectedItem st = None)"
proof -
  have empty: "List.find (\<lambda>item. getItemId item = []) xs = None" for xs
    by (simp add: find_None_iff getItemId_nonempty)
  have eq: "selectedItem st =
     (case selectedItemId st of
        None \<Rightarrow> None
      | Some sid \<Rightarrow> List.find (\<lambda>item. getItemId item = sid) (preorder (nodeTree st)))"
    by (simp add: selectedItem_def truthy_def findItem_find empty split: option.splits)
  have unset: "selectedItemId st = None \<longrightarrow> selectedItem st = None"
    by (simp add: eq)
  have stale: "(\<forall>item \<in> set (preorder (nodeTree st)). Some (getItemId item) \<noteq> selectedItemId st)
        \<longrightarrow> selectedItem st = None"
    unfolding eq by (auto simp: find_None_iff split: option.splits)
  from eq unset stale show ?thesis by blast
qed


theorem selectedItem_resolves_witness:
  "selectedItem
     \<lparr>nodeTree =
        [HierarchyItem \<lparr>jsxTagName = utf16 ''div'', component = None, attributes = []\<rparr>
           (utf16 ''m'') (utf16 ''1'')
           [HierarchyItem \<lparr>jsxTagName = utf16 ''span'', component = None, attributes = []\<rparr>
              (utf16 ''m'') (utf16 ''2'') []],
         HierarchyItem \<lparr>jsxTagName = utf16 ''p'', component = None, attributes = []\<rparr>
           (utf16 ''m'') (utf16 ''3'') []],
      selectedItemId = Some (hash (utf16 ''m:2''))\<rparr>
   = Some (HierarchyItem \<lparr>jsxTagName = utf16 ''span'', component = None, attributes = []\<rparr>
             (utf16 ''m'') (utf16 ''2'') [])
   \<and> selectedItem
     \<lparr>nodeTree =
        [HierarchyItem \<lparr>jsxTagName = utf16 ''div'', component = None, attributes = []\<rparr>
           (utf16 ''m'') (utf16 ''1'') [],
         HierarchyItem \<lparr>jsxTagName = utf16 ''p'', component = None, attributes = []\<rparr>
           (utf16 ''m'') (utf16 ''3'') []],
      selectedItemId = Some (hash (utf16 ''m:2''))\<rparr>
   = None"
proof -
  have h1: "hash (utf16 ''m:1'') = utf16 ''2147590244''"
    by (simp add: hash_def utf16_def shl_def ToInt32_def NumberToString_def charCode_def
          dec_digits.simps digit_def)
  have h2: "hash (utf16 ''m:2'') = utf16 ''2147590245''"
    by (simp add: hash_def utf16_def shl_def ToInt32_def NumberToString_def charCode_def
          dec_digits.simps digit_def)
  have h3: "hash (utf16 ''m:3'') = utf16 ''2147590246''"
    by (simp add: hash_def utf16_def shl_def ToInt32_def NumberToString_def charCode_def
          dec_digits.simps digit_def)
  have u: "utf16 ''m'' @ utf16 '':'' @ utf16 ''1'' = utf16 ''m:1''"
      "utf16 ''m'' @ utf16 '':'' @ utf16 ''2'' = utf16 ''m:2''"
      "utf16 ''m'' @ utf16 '':'' @ utf16 ''3'' = utf16 ''m:3''"
    by (simp_all add: utf16_def)
  have n: "utf16 ''2147590244'' \<noteq> utf16 ''2147590245''"
      "utf16 ''2147590246'' \<noteq> utf16 ''2147590245''"
    by (simp_all add: utf16_def)
  note r1 = selectedItem_resolves
    [of "\<lparr>nodeTree =
        [HierarchyItem \<lparr>jsxTagName = utf16 ''div'', component = None, attributes = []\<rparr>
           (utf16 ''m'') (utf16 ''1'')
           [HierarchyItem \<lparr>jsxTagName = utf16 ''span'', component = None, attributes = []\<rparr>
              (utf16 ''m'') (utf16 ''2'') []],
         HierarchyItem \<lparr>jsxTagName = utf16 ''p'', component = None, attributes = []\<rparr>
           (utf16 ''m'') (utf16 ''3'') []],
      selectedItemId = Some (hash (utf16 ''m:2''))\<rparr>", THEN conjunct1]
  note r2 = selectedItem_resolves
    [of "\<lparr>nodeTree =
        [HierarchyItem \<lparr>jsxTagName = utf16 ''div'', component = None, attributes = []\<rparr>
           (utf16 ''m'') (utf16 ''1'') [],
         HierarchyItem \<lparr>jsxTagName = utf16 ''p'', component = None, attributes = []\<rparr>
           (utf16 ''m'') (utf16 ''3'') []],
      selectedItemId = Some (hash (utf16 ''m:2''))\<rparr>", THEN conjunct1]
  show ?thesis
    unfolding r1 r2 by (simp add: getItemId_def u h1 h2 h3 n)
qed

text \<open>
  Claim C6, as amended. For an item whose component reference is truthy (a component
  type, or a tag name other than the empty string), the lookup returns the entry most
  recently registered for that reference; registering another reference does not change
  the result. For a reference with no entry, and for an item whose component reference is
  \<open>null\<close> or the empty string, the lookup returns \<open>DEFAULT_COMPONENT_INFO\<close>, whose
  property set is empty. The lookup is total.
\<close>

theorem componentInfo_of_registry:
  "(truthy_component (component (nodeInfo v)) \<longrightarrow>
      componentInfo_of (registerComponent (the (component (nodeInfo v))) info cmps) v = info)
   \<and> (component (nodeInfo v) \<noteq> Some c \<longrightarrow>
      componentInfo_of (registerComponent c info cmps) v = componentInfo_of cmps v)
   \<and> (component (nodeInfo v) = Some c \<longrightarrow> cmps c = None \<longrightarrow>
      componentInfo_of cmps v = DEFAULT_COMPONENT_INFO)
   \<and> (\<not> truthy_component (component (nodeInfo v)) \<longrightarrow>
      componentInfo_of cmps v = DEFAULT_COMPONENT_INFO)
   \<and> properties DEFAULT_COMPONENT_INFO = []"
  by (cases "component (nodeInfo v)")
     (auto simp: componentInfo_of_def registerComponent_def DEFAULT_COMPONENT_INFO_def)

theorem componentInfo_of_registry_witness:
  "componentInfo_of
     (registerComponent (ComponentType 1 (utf16 ''function Button() {}''))
        \<lparr>properties = [(utf16 ''color'', \<lparr>Editor = Some 0\<rparr>)]\<rparr>
        (registerComponent (ComponentType 1 (utf16 ''function Button() {}''))
           \<lparr>properties = []\<rparr> Map.empty))
     (HierarchyItem
        \<lparr>jsxTagName = utf16 ''Button'',
           component = Some (ComponentType 1 (utf16 ''function Button() {}'')),
           attributes = []\<rparr>
        (utf16 ''m'') (utf16 ''1'') [])
   = \<lparr>properties = [(utf16 ''color'', \<lparr>Editor = Some 0\<rparr>)]\<rparr>
   \<and> componentInfo_of Map.empty
     (HierarchyItem
        \<lparr>jsxTagName = utf16 ''Button'',
           component = Some (ComponentType 1 (utf16 ''function Button() {}'')),
           attributes = []\<rparr>
        (utf16 ''m'') (utf16 ''1'') [])
   = DEFAULT_COMPONENT_INFO"
proof -
  let ?c = "ComponentType 1 (utf16 ''function Button() {}'')"
  let ?v = "HierarchyItem
        \<lparr>jsxTagName = utf16 ''Button'', component = Some ?c, attributes = []\<rparr>
        (utf16 ''m'') (utf16 ''1'') []"
  have t: "truthy_component (component (nodeInfo ?v))" by simp
  have c: "component (nodeInfo ?v) = Some ?c" by simp
  have e: "Map.empty ?c = (None :: component_info option)" by simp
  from componentInfo_of_registry
    [of ?v "\<lparr>properties = [(utf16 ''color'', \<lparr>Editor = Some 0\<rparr>)]\<rparr>"
        "registerComponent ?c \<lparr>properties = []\<rparr> Map.empty" ?c] t
  have a: "componentInfo_of
     (registerComponent (the (component (nodeInfo ?v)))
        \<lparr>properties = [(utf16 ''color'', \<lparr>Editor = Some 0\<rparr>)]\<rparr>
        (registerComponent ?c \<lparr>properties = []\<rparr> Map.empty)) ?v
     = \<lparr>properties = [(utf16 ''color'', \<lparr>Editor = Some 0\<rparr>)]\<rparr>"
    by blast
  from componentInfo_of_registry [of ?v "\<lparr>properties = []\<rparr>" Map.empty ?c] c e
  have b: "componentInfo_of Map.empty ?v = DEFAULT_COMPONENT_INFO"
    by blast
  from a b show ?thesis by simp
qed

text \<open>
  Claim C6 as stated fails for the empty tag name: \<open>registerComponent\<close> stores an entry
  under it, and the lookup for an item with that reference takes the falsy branch of its
  condition and returns the default instead of the stored entry.
\<close>

theorem componentInfo_of_empty_name_counterexample:
  "componentInfo_of
     (registerComponent (ComponentName [])
        \<lparr>properties = [(utf16 ''color'', \<lparr>Editor = Some 0\<rparr>)]\<rparr> Map.empty)
     (HierarchyItem
        \<lparr>jsxTagName = [], component = Some (ComponentName []), attributes = []\<rparr>
        (utf16 ''m'') (utf16 ''1'') [])
   \<noteq> \<lparr>properties = [(utf16 ''color'', \<lparr>Editor = Some 0\<rparr>)]\<rparr>"
  by (simp add: componentInfo_of_def registerComponent_def DEFAULT_COMPONENT_INFO_def)

section \<open>Properties of the patch emitter\<close>

lemma all_paths_push:
  "Q p \<Longrightarrow> all_paths Q ds \<Longrightarrow> all_paths Q (push_remove p ds)"
  "Q p \<Longrightarrow> all_paths Q ds \<Longrightarrow> all_paths Q (pushReplace p ds v)"
  "Q p \<Longrightarrow> all_paths Q ds \<Longrightarrow> all_paths Q (push_add p v ds)"
  by (simp_all add: all_paths_def push_remove_def pushReplace_def push_add_def)

lemma all_paths_removes_obj:
  "(\<And>p x. Q p \<Longrightarrow> Q (p @ [x])) \<Longrightarrow> Q bpr \<Longrightarrow> all_paths Q ds \<Longrightarrow>
   all_paths Q (removes_obj obj1 obj2 bpr ds)"
  by (induction obj1 obj2 bpr ds rule: removes_obj.induct) (simp_all add: all_paths_push)

lemma all_paths_removes_arr:
  "(\<And>p x. Q p \<Longrightarrow> Q (p @ [x])) \<Longrightarrow> Q bpr \<Longrightarrow> all_paths Q ds \<Longrightarrow>
   all_paths Q (removes_arr is bpr ds)"
  by (induction "is" bpr ds rule: removes_arr.induct) (simp_all add: all_paths_push)

lemma all_paths_getDiff:
  assumes ext: "\<And>p x. Q p \<Longrightarrow> Q (p @ [x])"
  shows "Q bp \<Longrightarrow> Q bpr \<Longrightarrow> all_paths Q ds \<Longrightarrow> all_paths Q (getDiff obj1 obj2 bp bpr ds)"
    and "Q bp1 \<Longrightarrow> all_paths Q ds1 \<Longrightarrow> all_paths Q (replaces_obj kvs1 kvs2 bp1 ds1)"
    and "Q bp2 \<Longrightarrow> all_paths Q ds2 \<Longrightarrow> all_paths Q (replaces_arr xs1 i xs2 bp2 d ds2)"
    and "Q p \<Longrightarrow> Q pr \<Longrightarrow> all_paths Q ds3 \<Longrightarrow> all_paths Q (pushReplaces a b p pr ds3)"
proof (induction obj1 obj2 bp bpr ds and kvs1 kvs2 bp1 ds1 and xs1 i xs2 bp2 d ds2 and a b p pr ds3
    rule: getDiff_replaces_obj_replaces_arr_pushReplaces.induct)
  case (1 obj1 obj2 basePath basePathForRemoves ds)
  then show ?case
    by (subst getDiff.simps)
       (auto simp: all_paths_removes_obj all_paths_removes_arr ext split: jsval.splits)
next
  case (2 obj1 basePath ds)
  then show ?case by simp
next
  case (3 obj1 k v2 obj2 basePath ds)
  then show ?case by (simp add: ext)
next
  case (4 obj1 i basePath lengthDelta ds)
  then show ?case by simp
next
  case (5 obj1 i v2 obj2 basePath lengthDelta ds)
  then show ?case by (simp add: ext)
next
  case (6 obj1AtKey obj2AtKey path pathForRemoves ds)
  then show ?case
    by (subst pushReplaces.simps) (auto simp: all_paths_push split: option.splits)
qed


lemma removes_obj_keep:
  "fst ` set obj1 \<subseteq> fst ` set obj2 \<Longrightarrow> removes_obj obj1 obj2 bpr ds = ds"
  by (induction obj1 obj2 bpr ds rule: removes_obj.induct) auto

lemma pushReplaces_same: "pushReplaces (Some v) v p pr ds = ds"
  by (simp add: pushReplaces.simps)

lemma pushReplaces_new: "pushReplaces None v p pr ds = push_add p v ds"
  by (simp add: pushReplaces.simps)

lemma replaces_obj_append:
  "replaces_obj obj1 (xs @ ys) bp ds = replaces_obj obj1 ys bp (replaces_obj obj1 xs bp ds)"
  by (induction xs arbitrary: ds) auto

lemma replaces_obj_same:
  "\<forall>(k, v) \<in> set es. map_of obj1 k = Some v \<Longrightarrow> replaces_obj obj1 es bp ds = ds"
  by (induction es arbitrary: ds) (auto simp: pushReplaces_same)

lemma replaces_obj_one_key:
  assumes "\<And>k' v'. (k', v') \<in> set es \<Longrightarrow> k' \<noteq> k \<Longrightarrow> map_of obj1 k' = Some v'"
    and "all_paths (\<lambda>p. \<exists>rest. p = Key k # rest) ds"
  shows "all_paths (\<lambda>p. \<exists>rest. p = Key k # rest) (replaces_obj obj1 es [] ds)"
  using assms
proof (induction es arbitrary: ds)
  case Nil
  then show ?case by simp
next
  case (Cons e es)
  obtain k' v' where e: "e = (k', v')" by (cases e)
  have step: "all_paths (\<lambda>p. \<exists>rest. p = Key k # rest)
      (pushReplaces (map_of obj1 k') v' ([] @ [Key k']) ([] @ [Key k']) ds)"
  proof (cases "k' = k")
    case True
    show ?thesis
      by (rule all_paths_getDiff(4)) (use True Cons.prems(2) in auto)
  next
    case False
    with Cons.prems(1) [of k' v'] e have "map_of obj1 k' = Some v'" by simp
    then show ?thesis using Cons.prems(2) by (simp add: pushReplaces_same)
  qed
  show ?case
    unfolding e replaces_obj.simps
    by (rule Cons.IH) (use Cons.prems(1) e step in auto)
qed

lemma set_insert_index: "set (insert_index i k v kvs) = insert (k, v) (set kvs)"
  by (induction i k v kvs rule: insert_index.induct) (auto split: option.splits)

lemma insert_index_split:
  "\<exists>xs ys. insert_index i k v kvs = xs @ (k, v) # ys \<and> kvs = xs @ ys"
proof (induction i k v kvs rule: insert_index.induct)
  case (1 i k v)
  then show ?case by simp
next
  case (2 i k v k' v' kvs)
  show ?case
  proof (cases "\<exists>i'. array_index k' = Some i' \<and> i' < i")
    case True
    then obtain i' where i': "array_index k' = Some i'" "i' < i" by blast
    with 2 obtain xs ys where "insert_index i k v kvs = xs @ (k, v) # ys" "kvs = xs @ ys"
      by blast
    with i' have "insert_index i k v ((k', v') # kvs) = ((k', v') # xs) @ (k, v) # ys
        \<and> (k', v') # kvs = ((k', v') # xs) @ ys"
      by simp
    then show ?thesis by blast
  next
    case False
    then have "insert_index i k v ((k', v') # kvs) = [] @ (k, v) # ((k', v') # kvs)"
      by (auto split: option.splits)
    then show ?thesis by blast
  qed
qed

lemma obj_set_new_split:
  "k \<notin> fst ` set kvs \<Longrightarrow> \<exists>xs ys. obj_set kvs k v = xs @ (k, v) # ys \<and> kvs = xs @ ys"
  using insert_index_split [of _ k v kvs]
  by (auto simp: obj_set_def split: option.splits)

lemma obj_set_keys: "fst ` set kvs \<subseteq> fst ` set (obj_set kvs k v)"
  by (auto simp: obj_set_def set_insert_index image_iff split: option.splits) force+

lemma obj_set_other:
  "distinct (map fst kvs) \<Longrightarrow> (k', v') \<in> set (obj_set kvs k v) \<Longrightarrow> k' \<noteq> k \<Longrightarrow>
   map_of kvs k' = Some v'"
  by (auto simp: obj_set_def set_insert_index split: option.splits if_splits)

lemma distinct_own_properties: "distinct (map fst (own_properties v))"
  by (cases v) (simp add: utf16_def)

lemma diff_obj_set_paths:
  assumes "distinct (map fst kvs)"
  shows "list_all (\<lambda>x. \<exists>rest. op_path x = Key k # rest) (diff kvs (obj_set kvs k v))"
proof -
  let ?Q = "\<lambda>p. \<exists>rest. p = Key k # rest"
  let ?e = "\<lparr>remove = [], replace = [], add = []\<rparr>"
  have e: "all_paths ?Q ?e" by (simp add: all_paths_def)
  have "all_paths ?Q (replaces_obj kvs (obj_set kvs k v) [] ?e)"
    by (rule replaces_obj_one_key) (use assms e obj_set_other in auto)
  then have "all_paths ?Q (getDiff (JObj kvs) (JObj (obj_set kvs k v)) [] [] ?e)"
    by (simp add: getDiff.simps removes_obj_keep obj_set_keys)
  then show ?thesis
    by (simp add: diff_def Let_def all_paths_def)
qed

lemma diff_obj_set_new:
  assumes "distinct (map fst kvs)" and "k \<notin> fst ` set kvs"
  shows "diff kvs (obj_set kvs k v) = [Add [Key k] v]"
proof -
  let ?e = "\<lparr>remove = [], replace = [], add = []\<rparr>"
  from assms(2) obtain xs ys where s: "obj_set kvs k v = xs @ (k, v) # ys" "kvs = xs @ ys"
    using obj_set_new_split by blast
  have same: "map_of kvs k' = Some v'" if "(k', v') \<in> set xs \<union> set ys" for k' v'
  proof -
    from that s(2) have "(k', v') \<in> set kvs" by auto
    with assms(1) show ?thesis by (rule map_of_is_SomeI)
  qed
  have none: "map_of kvs k = None"
    using assms(2) by (simp add: map_of_eq_None_iff)
  have sx: "replaces_obj kvs xs [] ds = ds" for ds
    by (rule replaces_obj_same) (use same in auto)
  have sy: "replaces_obj kvs ys [] ds = ds" for ds
    by (rule replaces_obj_same) (use same in auto)
  have "replaces_obj kvs (obj_set kvs k v) [] ?e = push_add [Key k] v ?e"
    unfolding s(1) replaces_obj_append
    by (simp add: sx sy none pushReplaces_new)
  then have "getDiff (JObj kvs) (JObj (obj_set kvs k v)) [] [] ?e = push_add [Key k] v ?e"
    by (simp add: getDiff.simps removes_obj_keep obj_set_keys)
  then show ?thesis
    by (simp add: diff_def push_add_def)
qed


lemma map_of_insert_index:
  "map_of (insert_index i k v kvs) k' = (if k' = k then Some v else map_of kvs k')"
  if "k \<notin> fst ` set kvs"
  using that
proof (induction i k v kvs rule: insert_index.induct)
  case (1 i k v)
  then show ?case by simp
next
  case (2 i k v k'' v' kvs)
  then have ne: "k'' \<noteq> k" and notin: "k \<notin> fst ` set kvs" by auto
  show ?case
  proof (cases "\<exists>i'. array_index k'' = Some i' \<and> i' < i")
    case True
    then obtain i' where i': "array_index k'' = Some i'" "i' < i" by blast
    with 2 notin
    have "map_of (insert_index i k v kvs) k' = (if k' = k then Some v else map_of kvs k')"
      by simp
    with i' ne show ?thesis by (auto split: if_splits)
  next
    case False
    then have "insert_index i k v ((k'', v') # kvs) = (k, v) # (k'', v') # kvs"
      by (auto split: option.splits)
    then show ?thesis by simp
  qed
qed

lemma map_of_update_other:
  "k' \<noteq> k \<Longrightarrow>
   map_of (map (\<lambda>(k', v'). if k' = k then (k', v) else (k', v')) kvs) k' = map_of kvs k'"
  by (induction kvs) auto

lemma map_of_update_key:
  "k \<in> fst ` set kvs \<Longrightarrow>
   map_of (map (\<lambda>(k', v'). if k' = k then (k', v) else (k', v')) kvs) k = Some v"
  by (induction kvs) auto

lemma map_of_obj_set:
  "map_of (obj_set kvs k v) k' = (if k' = k then Some v else map_of kvs k')"
proof (cases "k \<in> fst ` set kvs")
  case True
  then show ?thesis by (simp add: obj_set_def map_of_update_other map_of_update_key)
next
  case False
  then have "map_of kvs k = None" by (simp add: map_of_eq_None_iff)
  then have "map_of (kvs @ [(k, v)]) k' = (if k' = k then Some v else map_of kvs k')"
    by (auto simp: map_add_def split: option.splits)
  with False show ?thesis
    by (auto simp: obj_set_def map_of_insert_index split: option.splits if_splits)
qed

text \<open>
  Claim C4. For one property key and a new field value, \<open>handleChange\<close> forwards
  exactly the diff between the item and the copy of the item with that key set, under the
  item's \<open>moduleId\<close> and \<open>nodeId\<close>. The copy has the new value under the key and the
  item's value under every other key. Every operation of that diff has a path that starts
  with the key: nothing outside the edited key is touched. When the key is not an own
  property of the item, which is the case for every key but \<open>nodeInfo\<close>, \<open>moduleId\<close>,
  \<open>nodeId\<close> and \<open>children\<close>, the diff is the single operation that adds the value at
  the path of the key. The state of the editor, and with it the item, is left as it was;
  the only effect is the recorded call.
\<close>

theorem handleChange_touches_only_key:
  fixes v :: hierarchy_item and key :: jsstring and newFieldValue :: jsval and w :: world
  defines "patches \<equiv> diff (own_properties v) (obj_set (own_properties v) key newFieldValue)"
  shows "handleChange v key newFieldValue w
           = w\<lparr>saved := saved w @ [(moduleId v, nodeId v, patches)]\<rparr>
       \<and> (\<forall>k. map_of (obj_set (own_properties v) key newFieldValue) k
                = (if k = key then Some newFieldValue else map_of (own_properties v) k))
       \<and> list_all (\<lambda>x. \<exists>rest. op_path x = Key key # rest) patches
       \<and> (key \<notin> fst ` set (own_properties v) \<longrightarrow> patches = [Add [Key key] newFieldValue])
       \<and> editor (handleChange v key newFieldValue w) = editor w"
proof -
  have a: "handleChange v key newFieldValue w
           = w\<lparr>saved := saved w @ [(moduleId v, nodeId v, patches)]\<rparr>"
    by (simp add: handleChange_def saveNodeProperties_def patches_def)
  have b: "list_all (\<lambda>x. \<exists>rest. op_path x = Key key # rest) patches"
    unfolding patches_def by (rule diff_obj_set_paths) (rule distinct_own_properties)
  have c: "key \<notin> fst ` set (own_properties v) \<longrightarrow> patches = [Add [Key key] newFieldValue]"
    unfolding patches_def by (simp add: diff_obj_set_new distinct_own_properties)
  have d: "editor (handleChange v key newFieldValue w) = editor w"
    by (simp add: a)
  have e: "\<forall>k. map_of (obj_set (own_properties v) key newFieldValue) k
                = (if k = key then Some newFieldValue else map_of (own_properties v) k)"
    by (simp add: map_of_obj_set)
  from a b c d e show ?thesis by blast
qed

theorem handleChange_touches_only_key_witness:
  "handleChange
     (HierarchyItem
        \<lparr>jsxTagName = utf16 ''Button'', component = Some (ComponentName (utf16 ''Button'')),
           attributes = [\<lparr>name = utf16 ''color'', kind = Static,
                          attr_value = JStr (utf16 ''red'')\<rparr>]\<rparr>
        (utf16 ''m'') (utf16 ''1'') [])
     (utf16 ''nodeId'') (JStr (utf16 ''2''))
     \<lparr>editor = \<lparr>nodeTree = [], selectedItemId = None\<rparr>, saved = []\<rparr>
   = \<lparr>editor = \<lparr>nodeTree = [], selectedItemId = None\<rparr>,
      saved = [(utf16 ''m'', utf16 ''1'',
                [Replace [Key (utf16 ''nodeId'')] (JStr (utf16 ''2''))])]\<rparr>"
proof -
  let ?v = "HierarchyItem
        \<lparr>jsxTagName = utf16 ''Button'', component = Some (ComponentName (utf16 ''Button'')),
           attributes = [\<lparr>name = utf16 ''color'', kind = Static,
                          attr_value = JStr (utf16 ''red'')\<rparr>]\<rparr>
        (utf16 ''m'') (utf16 ''1'') []"
  have d: "diff (own_properties ?v) (obj_set (own_properties ?v) (utf16 ''nodeId'') (JStr (utf16 ''2'')))
      = [Replace [Key (utf16 ''nodeId'')] (JStr (utf16 ''2''))]"
    by (simp add: diff_def obj_set_def utf16_def getDiff.simps pushReplaces.simps
          pushReplace_def)
  from handleChange_touches_only_key
    [of ?v "utf16 ''nodeId''" "JStr (utf16 ''2'')"
      "\<lparr>editor = \<lparr>nodeTree = [], selectedItemId = None\<rparr>, saved = []\<rparr>"]
  have "handleChange ?v (utf16 ''nodeId'') (JStr (utf16 ''2''))
      \<lparr>editor = \<lparr>nodeTree = [], selectedItemId = None\<rparr>, saved = []\<rparr>
    = \<lparr>editor = \<lparr>nodeTree = [], selectedItemId = None\<rparr>, saved = []\<rparr>
      \<lparr>saved := saved \<lparr>editor = \<lparr>nodeTree = [], selectedItemId = None\<rparr>, saved = []\<rparr>
        @ [(moduleId ?v, nodeId ?v,
            diff (own_properties ?v)
              (obj_set (own_properties ?v) (utf16 ''nodeId'') (JStr (utf16 ''2''))))]\<rparr>"
    by blast
  then show ?thesis
    unfolding d by simp
qed

text \<open>
  Claim C1, as amended. A component is registered with the one editable property
  \<open>color\<close>; the registry describes the node \<open>(m, n)\<close> as an instance of it with the
  static attribute \<open>color = "red"\<close>; the canvas holds the element marked \<open>(m, n)\<close>.
  Then the rebuild yields the one item, selecting it resolves to it, the panel shows the
  editor of \<open>color\<close> with the value \<open>"red"\<close>, and \<open>onChange("blue")\<close> of that editor
  adds exactly one call to the calls of \<open>saveNodeProperties\<close>: the item's \<open>moduleId\<close>
  and \<open>nodeId\<close> with the patch list \<open>[{op:"add", path:["color"], value:"blue"}]\<close>.
\<close>

theorem end_to_end_edit:
  fixes m n tag :: jsstring and c :: component_ref and ni :: node_info and ed :: nat
    and cmps0 :: components and st0 :: editor_state
  assumes "m \<noteq> []" and "n \<noteq> []" and "truthy_component (Some c)"
    and "getNodeInfo ms m n = Some ni"
    and "ni = \<lparr>jsxTagName = tag, component = Some c,
               attributes = [\<lparr>name = utf16 ''color'', kind = Static,
                              attr_value = JStr (utf16 ''red'')\<rparr>]\<rparr>"
  defines "cmps \<equiv>
      registerComponent c \<lparr>properties = [(utf16 ''color'', \<lparr>Editor = Some ed\<rparr>)]\<rparr> cmps0"
    and "item \<equiv> HierarchyItem ni m n []"
    and "canvas \<equiv> [HTMLElement [(utf16 ''data-mui-live-module-id'', m),
                                (utf16 ''data-mui-live-node-id'', n)] []]"
  defines "st \<equiv> setSelectedItemId (Some (getItemId item)) (st0\<lparr>nodeTree := [item]\<rparr>)"
  shows "observer_callback ms (Some canvas) st0 = Inr (st0\<lparr>nodeTree := [item]\<rparr>)
       \<and> selectedItem st = Some item
       \<and> property_panel cmps st
           = [PropertyEditor (utf16 ''color'') ed (JStr (utf16 ''red''))]
       \<and> onChange item (PropertyEditor (utf16 ''color'') ed (JStr (utf16 ''red'')))
             (JStr (utf16 ''blue'')) w
           = w\<lparr>saved := saved w @
                [(m, n, [Add [Key (utf16 ''color'')] (JStr (utf16 ''blue''))])]\<rparr>"
proof -
  have attrs: "utf16 ''data-mui-live-module-id'' \<noteq> utf16 ''data-mui-live-node-id''"
    by (simp add: utf16_def)
  have walk: "findNodes ms canvas = Inr [item]"
    using assms(1,2,4) attrs
    by (simp add: canvas_def item_def getAttribute_def truthy_def)
  have a: "observer_callback ms (Some canvas) st0 = Inr (st0\<lparr>nodeTree := [item]\<rparr>)"
    by (simp add: observer_callback_def walk)
  have b: "selectedItem st = Some item"
    by (simp add: st_def setSelectedItemId_def selectedItem_def truthy_def
          getItemId_nonempty item_def)
  have info: "componentInfo_of cmps item
      = \<lparr>properties = [(utf16 ''color'', \<lparr>Editor = Some ed\<rparr>)]\<rparr>"
    using assms(3,5) by (simp add: componentInfo_of_def cmps_def registerComponent_def item_def)
  have val: "attributeValue item (utf16 ''color'') = JStr (utf16 ''red'')"
    using assms(5) by (simp add: attributeValue_def item_def)
  have c: "property_panel cmps st
           = [PropertyEditor (utf16 ''color'') ed (JStr (utf16 ''red''))]"
    by (simp add: property_panel_def b NodeEditor_def info val nullish_or_def)
  have new: "utf16 ''color'' \<notin> fst ` set (own_properties item)"
    by (simp add: item_def utf16_def)
  have patch: "diff (own_properties item)
        (obj_set (own_properties item) (utf16 ''color'') (JStr (utf16 ''blue'')))
      = [Add [Key (utf16 ''color'')] (JStr (utf16 ''blue''))]"
    using distinct_own_properties new by (rule diff_obj_set_new)
  have d: "onChange item (PropertyEditor (utf16 ''color'') ed (JStr (utf16 ''red'')))
             (JStr (utf16 ''blue'')) w
           = w\<lparr>saved := saved w @
                [(m, n, [Add [Key (utf16 ''color'')] (JStr (utf16 ''blue''))])]\<rparr>"
    unfolding onChange.simps handleChange_def Let_def patch
    by (simp add: saveNodeProperties_def item_def)
  from a b c d show ?thesis by blast
qed


theorem end_to_end_edit_witness:
  "observer_callback
     [utf16 ''/src/App.tsx'' \<mapsto> \<lparr>nodes = [utf16 ''1'' \<mapsto>
       \<lparr>jsxTagName = utf16 ''Button'', component = Some (ComponentName (utf16 ''Button'')),
          attributes = [\<lparr>name = utf16 ''color'', kind = Static,
                         attr_value = JStr (utf16 ''red'')\<rparr>]\<rparr>]\<rparr>]
     (Some [HTMLElement [(utf16 ''data-mui-live-module-id'', utf16 ''/src/App.tsx''),
                     (utf16 ''data-mui-live-node-id'', utf16 ''1'')] []])
     \<lparr>nodeTree = [], selectedItemId = None\<rparr>
   = Inr (\<lparr>nodeTree = [], selectedItemId = None\<rparr>\<lparr>nodeTree := [(HierarchyItem
       \<lparr>jsxTagName = utf16 ''Button'', component = Some (ComponentName (utf16 ''Button'')),
          attributes = [\<lparr>name = utf16 ''color'', kind = Static,
                         attr_value = JStr (utf16 ''red'')\<rparr>]\<rparr>
       (utf16 ''/src/App.tsx'') (utf16 ''1'') [])]\<rparr>)
   \<and> selectedItem
     (setSelectedItemId (Some (getItemId (HierarchyItem
       \<lparr>jsxTagName = utf16 ''Button'', component = Some (ComponentName (utf16 ''Button'')),
          attributes = [\<lparr>name = utf16 ''color'', kind = Static,
                         attr_value = JStr (utf16 ''red'')\<rparr>]\<rparr>
       (utf16 ''/src/App.tsx'') (utf16 ''1'') [])))
       (\<lparr>nodeTree = [], selectedItemId = None\<rparr>\<lparr>nodeTree := [(HierarchyItem
       \<lparr>jsxTagName = utf16 ''Button'', component = Some (ComponentName (utf16 ''Button'')),
          attributes = [\<lparr>name = utf16 ''color'', kind = Static,
                         attr_value = JStr (utf16 ''red'')\<rparr>]\<rparr>
       (utf16 ''/src/App.tsx'') (utf16 ''1'') [])]\<rparr>))
   = Some (HierarchyItem
       \<lparr>jsxTagName = utf16 ''Button'', component = Some (ComponentName (utf16 ''Button'')),
          attributes = [\<lparr>name = utf16 ''color'', kind = Static,
                         attr_value = JStr (utf16 ''red'')\<rparr>]\<rparr>
       (utf16 ''/src/App.tsx'') (utf16 ''1'') [])
   \<and> property_panel
     (registerComponent (ComponentName (utf16 ''Button''))
       \<lparr>properties = [(utf16 ''color'', \<lparr>Editor = Some 0\<rparr>)]\<rparr> Map.empty)
     (setSelectedItemId (Some (getItemId (HierarchyItem
       \<lparr>jsxTagName = utf16 ''Button'', component = Some (ComponentName (utf16 ''Button'')),
          attributes = [\<lparr>name = utf16 ''color'', kind = Static,
                         attr_value = JStr (utf16 ''red'')\<rparr>]\<rparr>
       (utf16 ''/src/App.tsx'') (utf16 ''1'') [])))
       (\<lparr>nodeTree = [], selectedItemId = None\<rparr>\<lparr>nodeTree := [(HierarchyItem
       \<lparr>jsxTagName = utf16 ''Button'', component = Some (ComponentName (utf16 ''Button'')),
          attributes = [\<lparr>name = utf16 ''color'', kind = Static,
                         attr_value = JStr (utf16 ''red'')\<rparr>]\<rparr>
       (utf16 ''/src/App.tsx'') (utf16 ''1'') [])]\<rparr>))
   = [PropertyEditor (utf16 ''color'') 0 (JStr (utf16 ''red''))]
   \<and> onChange
     (HierarchyItem
       \<lparr>jsxTagName = utf16 ''Button'', component = Some (ComponentName (utf16 ''Button'')),
          attributes = [\<lparr>name = utf16 ''color'', kind = Static,
                         attr_value = JStr (utf16 ''red'')\<rparr>]\<rparr>
       (utf16 ''/src/App.tsx'') (utf16 ''1'') [])
     (PropertyEditor (utf16 ''color'') 0 (JStr (utf16 ''red''))) (JStr (utf16 ''blue''))
     \<lparr>editor = \<lparr>nodeTree = [], selectedItemId = None\<rparr>, saved = []\<rparr>
   = \<lparr>editor = \<lparr>nodeTree = [], selectedItemId = None\<rparr>, saved = []\<rparr>\<lparr>saved := saved \<lparr>editor = \<lparr>nodeTree = [], selectedItemId = None\<rparr>, saved = []\<rparr> @
       [(utf16 ''/src/App.tsx'', utf16 ''1'',
         [Add [Key (utf16 ''color'')] (JStr (utf16 ''blue''))])]\<rparr>"
proof -
  have 1: "utf16 ''/src/App.tsx'' \<noteq> []" and 2: "utf16 ''1'' \<noteq> []"
    by (simp_all add: utf16_def)
  have 3: "truthy_component (Some (ComponentName (utf16 ''Button'')))"
    by (simp add: utf16_def)
  have 4: "getNodeInfo
     [utf16 ''/src/App.tsx'' \<mapsto> \<lparr>nodes = [utf16 ''1'' \<mapsto>
       \<lparr>jsxTagName = utf16 ''Button'', component = Some (ComponentName (utf16 ''Button'')),
          attributes = [\<lparr>name = utf16 ''color'', kind = Static,
                         attr_value = JStr (utf16 ''red'')\<rparr>]\<rparr>]\<rparr>]
     (utf16 ''/src/App.tsx'') (utf16 ''1'')
     = Some \<lparr>jsxTagName = utf16 ''Button'', component = Some (ComponentName (utf16 ''Button'')),
          attributes = [\<lparr>name = utf16 ''color'', kind = Static,
                         attr_value = JStr (utf16 ''red'')\<rparr>]\<rparr>"
    by (simp add: getNodeInfo_def)
  show ?thesis
    by (rule end_to_end_edit [OF 1 2 3 4 refl])
qed

text \<open>
  Claim C1 as stated fails: the operation the editor forwards is an \<open>add\<close>, not a
  \<open>replace\<close>. The object that is diffed is the item, whose own properties are
  \<open>nodeInfo\<close>, \<open>moduleId\<close>, \<open>nodeId\<close> and \<open>children\<close>; the static attribute
  \<open>color\<close> is an element of \<open>nodeInfo.attributes\<close>, so \<open>color\<close> is a new key of the
  copy.
\<close>

theorem end_to_end_edit_counterexample:
  "saved (onChange
     (HierarchyItem
       \<lparr>jsxTagName = utf16 ''Button'', component = Some (ComponentName (utf16 ''Button'')),
          attributes = [\<lparr>name = utf16 ''color'', kind = Static,
                         attr_value = JStr (utf16 ''red'')\<rparr>]\<rparr>
       (utf16 ''/src/App.tsx'') (utf16 ''1'') [])
     (PropertyEditor (utf16 ''color'') 0 (JStr (utf16 ''red''))) (JStr (utf16 ''blue''))
     \<lparr>editor = \<lparr>nodeTree = [], selectedItemId = None\<rparr>, saved = []\<rparr>)
   = [(utf16 ''/src/App.tsx'', utf16 ''1'',
       [Add [Key (utf16 ''color'')] (JStr (utf16 ''blue''))])]
   \<and> saved (onChange
     (HierarchyItem
       \<lparr>jsxTagName = utf16 ''Button'', component = Some (ComponentName (utf16 ''Button'')),
          attributes = [\<lparr>name = utf16 ''color'', kind = Static,
                         attr_value = JStr (utf16 ''red'')\<rparr>]\<rparr>
       (utf16 ''/src/App.tsx'') (utf16 ''1'') [])
     (PropertyEditor (utf16 ''color'') 0 (JStr (utf16 ''red''))) (JStr (utf16 ''blue''))
     \<lparr>editor = \<lparr>nodeTree = [], selectedItemId = None\<rparr>, saved = []\<rparr>)
   \<noteq> [(utf16 ''/src/App.tsx'', utf16 ''1'',
       [Replace [Key (utf16 ''color'')] (JStr (utf16 ''blue''))])]"
proof -
  let ?item = "HierarchyItem
       \<lparr>jsxTagName = utf16 ''Button'', component = Some (ComponentName (utf16 ''Button'')),
          attributes = [\<lparr>name = utf16 ''color'', kind = Static,
                         attr_value = JStr (utf16 ''red'')\<rparr>]\<rparr>
       (utf16 ''/src/App.tsx'') (utf16 ''1'') []"
  have new: "utf16 ''color'' \<notin> fst ` set (own_properties ?item)"
    by (simp add: utf16_def)
  have patch: "diff (own_properties ?item)
        (obj_set (own_properties ?item) (utf16 ''color'') (JStr (utf16 ''blue'')))
      = [Add [Key (utf16 ''color'')] (JStr (utf16 ''blue''))]"
    using distinct_own_properties new by (rule diff_obj_set_new)
  show ?thesis
    unfolding onChange.simps handleChange_def Let_def patch
    by (simp add: saveNodeProperties_def)
qed

end
